theory Spec2Isabelle
  imports Main "HOL-Library.Multiset"
begin

section \<open>libfrr: option registration, option dispatch and daemon bootstrap\<close>

text \<open>
  A shallow embedding of \<^verbatim>\<open>lib/libfrr.c\<close>. The file keeps its state in static
  variables; the model threads them through every function as one record. A function
  of the C file that may leave through \<^verbatim>\<open>exit\<close> returns an \<open>outcome\<close>: either it
  returns to its caller, or the process exits with a status, or the C program has no
  defined behaviour (a write past the end of an array, a read through a null pointer).
\<close>

subsection \<open>Data\<close>

text \<open>
  The feature flags of \<^verbatim>\<open>libfrr.h\<close>. The header is not part of the sources at hand, so
  the bit values are not known; \<^verbatim>\<open>di->flags & FRR_NO_TCPVTY\<close> is membership in the
  set of flags.
\<close>

datatype frr_flag = FRR_NO_PRIVSEP | FRR_NO_TCPVTY

text \<open>\<^verbatim>\<open>struct option\<close> of \<^verbatim>\<open>getopt.h\<close>; \<open>flag\<close> is a pointer, null in every table of the file.\<close>

record struct_option =
  name :: string
  has_arg :: int
  flag :: "nat option"
  val :: int

definition no_argument :: int where
  "no_argument = 0"

definition required_argument :: int where
  "required_argument = 1"

text \<open>
  \<^verbatim>\<open>struct optspec\<close>: one fragment. \<open>longopts\<close> holds the descriptors before the
  terminating entry whose name is null.
\<close>

record optspec =
  optstr :: string
  helpstr :: string
  longopts :: "struct_option list"

text \<open>The two fields of the privilege configuration that the file writes.\<close>

record zebra_privs_t =
  user :: "string option"
  group :: "string option"

text \<open>
  \<^verbatim>\<open>struct frr_daemon_info\<close>, with the fields the file reads or writes. A \<^verbatim>\<open>char *\<close> that
  the code tests against null is a \<open>string option\<close>. \<open>printhelp\<close> is a function pointer
  that receives the target stream; the model keeps the text it writes there.
  \<open>vty_port\<close> holds the value assigned to it; the width of the C field is declared in
  \<^verbatim>\<open>libfrr.h\<close> and is not narrowed here.
\<close>

record frr_daemon_info =
  flags :: "frr_flag set"
  progname :: string
  proghelp :: string
  copyright :: "string option"
  printhelp :: "string option"
  vty_addr :: "string option"
  vty_port :: nat
  vty_sock_path :: "string option"
  privs :: zebra_privs_t

text \<open>
  The static variables of the file, the process umask and the two output streams.
  \<open>comb_lo\<close> holds the descriptors written so far, so \<^verbatim>\<open>comb_next_lo\<close> points at
  \<^verbatim>\<open>comb_lo[length (comb_lo st)]\<close>. \<open>di\<close> is \<open>None\<close> while the pointer is null. \<open>errors\<close> is
  a C \<^verbatim>\<open>int\<close> that only ever grows by one per scanned option; it is an \<open>int\<close> here, which
  does not wrap.
\<close>

record frr_state =
  comb_optstr :: string
  comb_lo :: "struct_option list"
  comb_helpstr :: string
  di :: "frr_daemon_info option"
  errors :: int
  vty_port_set :: bool
  vty_addr_set :: bool
  umask :: nat
  stdout :: string
  stderr :: string

datatype fault = Overrun | NullDeref

datatype 'a outcome = Return 'a | Exit int frr_state | Undefined fault

fun is_Exit :: "'a outcome \<Rightarrow> bool" where
  "is_Exit (Exit status st) = True"
| "is_Exit (Return x) = False"
| "is_Exit (Undefined f) = False"

fun seq :: "'a outcome \<Rightarrow> ('a \<Rightarrow> 'b outcome) \<Rightarrow> 'b outcome" where
  "seq (Return x) f = f x"
| "seq (Exit status st) f = Exit status st"
| "seq (Undefined w) f = Undefined w"

text \<open>
  Values the build supplies: the macro \<^verbatim>\<open>FRR_BUG_ADDRESS\<close>, the macro \<^verbatim>\<open>MAXPATHLEN\<close>
  of the platform, and the text \<^verbatim>\<open>print_version\<close> writes for a program name.
\<close>

record build =
  FRR_BUG_ADDRESS :: string
  MAXPATHLEN :: nat
  version_text :: "string \<Rightarrow> string"

text \<open>The state of the process when \<^verbatim>\<open>main\<close> starts: every static variable is zero.\<close>

definition initial_state :: "nat \<Rightarrow> frr_state" where
  "initial_state inherited_umask =
     \<lparr>comb_optstr = [], comb_lo = [], comb_helpstr = [], di = None, errors = 0,
      vty_port_set = False, vty_addr_set = False, umask = inherited_umask,
      stdout = [], stderr = []\<rparr>"

subsection \<open>The registry: \<^verbatim>\<open>opt_extend\<close>, \<^verbatim>\<open>frr_preinit\<close>, \<^verbatim>\<open>frr_opt_add\<close>\<close>

text \<open>
  \<^verbatim>\<open>opt_extend\<close> calls \<^verbatim>\<open>strcat\<close> on \<^verbatim>\<open>comb_optstr[256]\<close> and \<^verbatim>\<open>comb_helpstr[4096]\<close> and
  copies each descriptor to \<^verbatim>\<open>comb_next_lo++\<close> in \<^verbatim>\<open>comb_lo[64]\<close>. The C function has no
  test and no exit of its own. The three tests below are not tests of the code: they
  separate the calls whose writes stay inside the arrays, where C defines the result,
  from the calls that write past the end of an array, where it defines none. A string
  of length \<open>n\<close> takes \<open>n + 1\<close> bytes with its terminator.
\<close>

definition opt_extend :: "optspec \<Rightarrow> frr_state \<Rightarrow> frr_state outcome" where
  "opt_extend os st =
     (if 256 < length (comb_optstr st) + length (optstr os) + 1 then Undefined Overrun
      else if 4096 < length (comb_helpstr st) + length (helpstr os) + 1 then Undefined Overrun
      else if 64 < length (comb_lo st) + length (longopts os) then Undefined Overrun
      else Return (st\<lparr>comb_optstr := comb_optstr st @ optstr os,
                      comb_helpstr := comb_helpstr st @ helpstr os,
                      comb_lo := comb_lo st @ longopts os\<rparr>))"

text \<open>A character constant as the \<^verbatim>\<open>int\<close> that \<^verbatim>\<open>getopt_long\<close> returns for it.\<close>

definition opt_code :: "char \<Rightarrow> int" where
  "opt_code c = of_char c"

definition OPTION_VTYSOCK :: int where
  "OPTION_VTYSOCK = 1000"

definition lo_always :: "struct_option list" where
  "lo_always =
     [\<lparr>name = ''help'', has_arg = no_argument, flag = None, val = opt_code CHR ''h''\<rparr>,
      \<lparr>name = ''version'', has_arg = no_argument, flag = None, val = opt_code CHR ''v''\<rparr>,
      \<lparr>name = ''vty_socket'', has_arg = required_argument, flag = None, val = OPTION_VTYSOCK\<rparr>]"

definition os_always :: optspec where
  "os_always =
     \<lparr>optstr = ''hv'',
      helpstr = ''  -h, --help         Display this help and exit\<newline>'' @
                ''  -v, --version      Print program version\<newline>'' @
                ''      --vty_socket   Override vty socket path\<newline>'',
      longopts = lo_always\<rparr>"

definition lo_vty :: "struct_option list" where
  "lo_vty =
     [\<lparr>name = ''vty_addr'', has_arg = required_argument, flag = None, val = opt_code CHR ''A''\<rparr>,
      \<lparr>name = ''vty_port'', has_arg = required_argument, flag = None, val = opt_code CHR ''P''\<rparr>]"

definition os_vty :: optspec where
  "os_vty =
     \<lparr>optstr = ''A:P:'',
      helpstr = ''  -A, --vty_addr     Set vty's bind address\<newline>'' @
                ''  -P, --vty_port     Set vty's port number\<newline>'',
      longopts = lo_vty\<rparr>"

definition lo_user :: "struct_option list" where
  "lo_user =
     [\<lparr>name = ''user'', has_arg = required_argument, flag = None, val = opt_code CHR ''u''\<rparr>,
      \<lparr>name = ''group'', has_arg = required_argument, flag = None, val = opt_code CHR ''g''\<rparr>]"

definition os_user :: optspec where
  "os_user =
     \<lparr>optstr = ''u:g:'',
      helpstr = ''  -u, --user         User to run as\<newline>'' @
                ''  -g, --group        Group to run as\<newline>'',
      longopts = lo_user\<rparr>"

text \<open>
  \<^verbatim>\<open>strrchr\<close> of the C library: the suffix that starts at the last occurrence of the
  character, or null.
\<close>

definition strrchr :: "string \<Rightarrow> char \<Rightarrow> string option" where
  "strrchr s c =
     (if c \<in> set s then Some (c # rev (takeWhile (\<lambda>x. x \<noteq> c) (rev s))) else None)"

text \<open>
  \<^verbatim>\<open>frr_preinit(daemon, argc, argv)\<close>. \<^verbatim>\<open>argc\<close> is not read. An empty \<open>argv\<close> has a null
  \<^verbatim>\<open>argv[0]\<close>, which \<^verbatim>\<open>strrchr\<close> reads.
\<close>

definition frr_preinit :: "frr_daemon_info \<Rightarrow> string list \<Rightarrow> frr_state \<Rightarrow> frr_state outcome" where
  "frr_preinit daemon argv st =
     (case argv of
        [] \<Rightarrow> Undefined NullDeref
      | argv0 # _ \<Rightarrow>
          (let p = strrchr argv0 CHR ''/'';
               d = daemon\<lparr>progname := (case p of Some q \<Rightarrow> tl q | None \<Rightarrow> argv0)\<rparr>;
               st0 = st\<lparr>di := Some d, umask := 23\<rparr>
           in seq (opt_extend os_always st0) (\<lambda>st1.
              seq (if FRR_NO_PRIVSEP \<notin> flags d then opt_extend os_user st1 else Return st1) (\<lambda>st2.
              if FRR_NO_TCPVTY \<notin> flags d then opt_extend os_vty st2 else Return st2))))"

definition frr_opt_add :: "string \<Rightarrow> struct_option list \<Rightarrow> string \<Rightarrow> frr_state \<Rightarrow> frr_state outcome" where
  "frr_opt_add optstr' longopts' helpstr' st =
     opt_extend \<lparr>optstr = optstr', helpstr = helpstr', longopts = longopts'\<rparr> st"

subsection \<open>Output and the help exit\<close>

datatype stream = Stdout | Stderr

text \<open>\<^verbatim>\<open>fprintf(target, ...)\<close>, given the text that the format and its arguments produce.\<close>

definition fprintf :: "stream \<Rightarrow> string \<Rightarrow> frr_state \<Rightarrow> frr_state" where
  "fprintf target s st =
     (case target of
        Stdout \<Rightarrow> st\<lparr>stdout := stdout st @ s\<rparr>
      | Stderr \<Rightarrow> st\<lparr>stderr := stderr st @ s\<rparr>)"

definition usage_text :: "frr_daemon_info \<Rightarrow> string \<Rightarrow> string" where
  "usage_text d help =
     ''Usage: '' @ progname d @ '' [OPTION...]\<newline>\<newline>'' @ proghelp d @
     (case copyright d of Some c \<Rightarrow> ''\<newline>\<newline>'' | None \<Rightarrow> []) @
     (case copyright d of Some c \<Rightarrow> c | None \<Rightarrow> []) @
     ''\<newline>\<newline>'' @ help"

definition frr_help_exit :: "build \<Rightarrow> int \<Rightarrow> frr_state \<Rightarrow> 'a outcome" where
  "frr_help_exit b status st =
     (let target = (if status \<noteq> 0 then Stderr else Stdout);
          st1 = (if status \<noteq> 0 then fprintf Stderr ''Invalid options.\<newline>\<newline>'' st else st)
      in case di st1 of
           None \<Rightarrow> Undefined NullDeref
         | Some d \<Rightarrow>
             (let st2 = (case printhelp d of
                           Some txt \<Rightarrow> fprintf target txt st1
                         | None \<Rightarrow> fprintf target (usage_text d (comb_helpstr st1)) st1);
                  st3 = fprintf target
                          (''\<newline>Report bugs to '' @ FRR_BUG_ADDRESS b @ ''\<newline>'') st2
              in Exit status st3))"

text \<open>
  Modelled from the spec: \<^verbatim>\<open>print_version\<close> is defined outside the sources at hand. The
  spec has the version code "print program identifier/version" and has \<^verbatim>\<open>-v\<close> "always
  print to standard output"; the text itself is the build's.
\<close>

definition print_version :: "build \<Rightarrow> string \<Rightarrow> frr_state \<Rightarrow> frr_state" where
  "print_version b pname st = fprintf Stdout (version_text b pname) st"

subsection \<open>\<^verbatim>\<open>strtoul\<close> of the C library\<close>

text \<open>
  \<^verbatim>\<open>strtoul(nptr, &endptr, base)\<close> as the C standard describes it (7.22.1.4), in the C
  locale: white space is skipped, a sign is optional, base 0 reads the base from the
  prefix (\<^verbatim>\<open>0x\<close> before a hexadecimal digit: 16; a leading \<^verbatim>\<open>0\<close>: 8; otherwise 10), the
  longest run of digits of the base is converted, and \<^verbatim>\<open>endptr\<close> is left at the first
  character after it. With no digit, the result is 0 and \<^verbatim>\<open>endptr\<close> is \<^verbatim>\<open>nptr\<close>. A value
  out of range gives \<^verbatim>\<open>ULONG_MAX\<close>; a minus sign negates in the unsigned type.
  The pair is the value and the string at \<^verbatim>\<open>endptr\<close>. \<^verbatim>\<open>unsigned long\<close> has 64 bits here.
\<close>

definition isspace :: "char \<Rightarrow> bool" where
  "isspace c = (c \<in> set [CHR '' '', CHR 0x09, CHR 0x0A, CHR 0x0B, CHR 0x0C, CHR 0x0D])"

definition digit_value :: "char \<Rightarrow> nat option" where
  "digit_value c =
     (let n = (of_char c :: nat) in
      if 48 \<le> n \<and> n \<le> 57 then Some (n - 48)
      else if 97 \<le> n \<and> n \<le> 122 then Some (n - 87)
      else if 65 \<le> n \<and> n \<le> 90 then Some (n - 55)
      else None)"

definition isxdigit :: "char \<Rightarrow> bool" where
  "isxdigit c = (case digit_value c of Some d \<Rightarrow> d < 16 | None \<Rightarrow> False)"

fun strtoul_digits :: "nat \<Rightarrow> nat \<Rightarrow> string \<Rightarrow> nat \<times> string" where
  "strtoul_digits base acc [] = (acc, [])"
| "strtoul_digits base acc (c # cs) =
     (case digit_value c of
        Some d \<Rightarrow> if d < base then strtoul_digits base (acc * base + d) cs else (acc, c # cs)
      | None \<Rightarrow> (acc, c # cs))"

definition ULONG_MAX :: nat where
  "ULONG_MAX = 2 ^ 64 - 1"

definition strtoul :: "string \<Rightarrow> nat \<Rightarrow> nat \<times> string" where
  "strtoul nptr base =
     (let s1 = dropWhile isspace nptr;
          neg = (s1 \<noteq> [] \<and> hd s1 = CHR ''-'');
          s2 = (if s1 \<noteq> [] \<and> (hd s1 = CHR ''-'' \<or> hd s1 = CHR ''+'') then tl s1 else s1);
          hex = ((base = 0 \<or> base = 16) \<and>
                 (case s2 of
                    z # x # h # _ \<Rightarrow>
                      z = CHR ''0'' \<and> (x = CHR ''x'' \<or> x = CHR ''X'') \<and> isxdigit h
                  | _ \<Rightarrow> False));
          radix = (if base \<noteq> 0 then base
                   else if hex then 16
                   else if s2 \<noteq> [] \<and> hd s2 = CHR ''0'' then 8
                   else 10);
          s3 = (if hex then drop 2 s2 else s2);
          (v, rest) = strtoul_digits radix 0 s3
      in if base = 1 \<or> 36 < base then (0, nptr)
         else if length rest = length s3 then (0, nptr)
         else if ULONG_MAX < v then (ULONG_MAX, rest)
         else if neg then ((ULONG_MAX + 1 - v) mod (ULONG_MAX + 1), rest)
         else (v, rest))"

subsection \<open>The dispatcher: \<^verbatim>\<open>frr_opt\<close> and \<^verbatim>\<open>frr_getopt\<close>\<close>

text \<open>
  \<^verbatim>\<open>frr_opt(opt)\<close>, with the global \<^verbatim>\<open>optarg\<close> that \<^verbatim>\<open>getopt_long\<close> left as an argument.
  The result is the returned int and the new state. The two static flags of the
  function are fields of the state.
\<close>

definition frr_opt :: "build \<Rightarrow> int \<Rightarrow> string option \<Rightarrow> frr_state \<Rightarrow> (int \<times> frr_state) outcome" where
  "frr_opt b opt optarg st =
     (if opt = opt_code CHR ''h'' then frr_help_exit b 0 st
      else if opt = opt_code CHR ''v'' then
        (case di st of
           None \<Rightarrow> Undefined NullDeref
         | Some d \<Rightarrow> Exit 0 (print_version b (progname d) st))
      else if opt = opt_code CHR ''A'' then
        (case di st of
           None \<Rightarrow> Undefined NullDeref
         | Some d \<Rightarrow>
             if FRR_NO_TCPVTY \<in> flags d then Return (1, st)
             else if vty_addr_set st then
               Return (0, (fprintf Stderr ''-A option specified more than once!\<newline>'' st)
                            \<lparr>errors := errors st + 1\<rparr>)
             else Return (0, st\<lparr>vty_addr_set := True, di := Some (d\<lparr>vty_addr := optarg\<rparr>)\<rparr>))
      else if opt = opt_code CHR ''P'' then
        (case di st of
           None \<Rightarrow> Undefined NullDeref
         | Some d \<Rightarrow>
             if FRR_NO_TCPVTY \<in> flags d then Return (1, st)
             else if vty_port_set st then
               Return (0, (fprintf Stderr ''-P option specified more than once!\<newline>'' st)
                            \<lparr>errors := errors st + 1\<rparr>)
             else
               (case optarg of
                  None \<Rightarrow> Undefined NullDeref
                | Some a \<Rightarrow>
                    (let (v, err) = strtoul a 0;
                         st1 = st\<lparr>vty_port_set := True, di := Some (d\<lparr>vty_port := v\<rparr>)\<rparr>
                     in if err \<noteq> [] \<or> a = [] then
                          Return (0, (fprintf Stderr
                                        (''invalid port number '' @ [CHR 0x22] @ a @ [CHR 0x22] @
                                         '' for -P option\<newline>'') st1)
                                       \<lparr>errors := errors st1 + 1\<rparr>)
                        else Return (0, st1))))
      else if opt = OPTION_VTYSOCK then
        (case di st of
           None \<Rightarrow> Undefined NullDeref
         | Some d \<Rightarrow>
             if vty_sock_path d \<noteq> None then
               Return (0, (fprintf Stderr ''--vty_socket option specified more than once!\<newline>'' st)
                            \<lparr>errors := errors st + 1\<rparr>)
             else Return (0, st\<lparr>di := Some (d\<lparr>vty_sock_path := optarg\<rparr>)\<rparr>))
      else if opt = opt_code CHR ''u'' then
        (case di st of
           None \<Rightarrow> Undefined NullDeref
         | Some d \<Rightarrow>
             if FRR_NO_PRIVSEP \<in> flags d then Return (1, st)
             else Return (0, st\<lparr>di := Some (d\<lparr>privs := (privs d)\<lparr>user := optarg\<rparr>\<rparr>)\<rparr>))
      else if opt = opt_code CHR ''g'' then
        (case di st of
           None \<Rightarrow> Undefined NullDeref
         | Some d \<Rightarrow>
             if FRR_NO_PRIVSEP \<in> flags d then Return (1, st)
             else Return (0, st\<lparr>di := Some (d\<lparr>privs := (privs d)\<lparr>group := optarg\<rparr>\<rparr>)\<rparr>))
      else Return (1, st))"

text \<open>
  \<^verbatim>\<open>getopt_long\<close> is the platform's scanner and is taken as a parameter: the results it
  returns, call after call, for the \<^verbatim>\<open>argv\<close> and the combined table, before it returns
  \<open>-1\<close>. One result is the returned code, the \<^verbatim>\<open>optarg\<close> it leaves (null for an option
  without argument) and the index it stores through its last argument when the option
  was a long one. What the scanner itself prints for an option it does not know is not
  part of the model.
\<close>

record getopt_ret =
  ret_opt :: int
  ret_optarg :: "string option"
  ret_longind :: "nat option"

text \<open>
  The \<^verbatim>\<open>do ... while (opt != -1)\<close> loop of \<^verbatim>\<open>frr_getopt\<close>. \<open>lidx\<close> is the local of that name,
  \<open>None\<close> while it is not initialised. The result is \<open>opt\<close> and \<open>lidx\<close> after the loop,
  the results the scanner has not returned yet, and the state.
\<close>

fun frr_getopt_loop ::
  "build \<Rightarrow> nat option \<Rightarrow> getopt_ret list \<Rightarrow> frr_state \<Rightarrow>
   (int \<times> nat option \<times> getopt_ret list \<times> frr_state) outcome" where
  "frr_getopt_loop b lidx [] st =
     seq (frr_opt b (- 1) None st) (\<lambda>(r, st'). Return (- 1, lidx, [], st'))"
| "frr_getopt_loop b lidx (e # evs) st =
     (let lidx' = (case ret_longind e of Some i \<Rightarrow> Some i | None \<Rightarrow> lidx)
      in seq (frr_opt b (ret_opt e) (ret_optarg e) st) (\<lambda>(r, st').
           if r \<noteq> 0 then Return (ret_opt e, lidx', evs, st')
           else if ret_opt e \<noteq> - 1 then frr_getopt_loop b lidx' evs st'
           else Return (ret_opt e, lidx', evs, st')))"

text \<open>
  \<^verbatim>\<open>frr_getopt(argc, argv, longindex)\<close>. The first statement writes the terminating
  entry at \<^verbatim>\<open>comb_next_lo\<close>, which is past the array once 64 descriptors are in it. The
  result carries \<open>lidx\<close>, which the caller receives through \<^verbatim>\<open>longindex\<close>.
\<close>

definition frr_getopt ::
  "build \<Rightarrow> getopt_ret list \<Rightarrow> frr_state \<Rightarrow>
   (int \<times> nat option \<times> getopt_ret list \<times> frr_state) outcome" where
  "frr_getopt b evs st =
     (if 64 \<le> length (comb_lo st) then Undefined Overrun
      else seq (frr_getopt_loop b None evs st) (\<lambda>(opt, lidx, evs', st').
             if opt = - 1 \<and> errors st' \<noteq> 0 then frr_help_exit b 1 st'
             else Return (opt, lidx, evs', st')))"

subsection \<open>\<^verbatim>\<open>frr_vty_serv\<close>\<close>

text \<open>
  \<^verbatim>\<open>snprintf(buf, size, "%s/%s", a, b)\<close>: at most \<open>size - 1\<close> bytes of the text are kept.
\<close>

definition snprintf_path :: "nat \<Rightarrow> string \<Rightarrow> string \<Rightarrow> string" where
  "snprintf_path n a b = take (n - 1) (a @ ''/'' @ b)"

text \<open>
  \<^verbatim>\<open>vty_serv_sock\<close> is the socket collaborator; the result of \<open>frr_vty_serv\<close> is the
  triple of arguments it is called with: address, port and path.
\<close>

definition frr_vty_serv :: "build \<Rightarrow> string \<Rightarrow> frr_state \<Rightarrow> (string option \<times> nat \<times> string) outcome" where
  "frr_vty_serv b path st =
     (case di st of
        None \<Rightarrow> Undefined NullDeref
      | Some d \<Rightarrow>
          (case vty_sock_path d of
             Some dir \<Rightarrow>
               (let p = strrchr path CHR ''/'';
                    nm = (case p of Some q \<Rightarrow> tl q | None \<Rightarrow> path);
                    newpath = snprintf_path (MAXPATHLEN b) dir nm
                in Return (vty_addr d, vty_port d, newpath))
           | None \<Rightarrow> Return (vty_addr d, vty_port d, path)))"

subsection \<open>Notions the statements use\<close>

text \<open>A sequence of registrations: \<^verbatim>\<open>opt_extend\<close> called on each fragment in turn.\<close>

fun opt_extend_all :: "optspec list \<Rightarrow> frr_state \<Rightarrow> frr_state outcome" where
  "opt_extend_all [] st = Return st"
| "opt_extend_all (os # rest) st = seq (opt_extend os st) (opt_extend_all rest)"

text \<open>The combined table lies inside its three arrays, terminators included.\<close>

definition within_capacity :: "frr_state \<Rightarrow> bool" where
  "within_capacity st =
     (length (comb_optstr st) < 256 \<and> length (comb_helpstr st) < 4096 \<and> length (comb_lo st) \<le> 64)"

text \<open>
  The fragments of a sequence fit into what is left of the three arrays: the totals of
  their lengths, added to what the table holds.
\<close>

definition fragments_fit :: "frr_state \<Rightarrow> optspec list \<Rightarrow> bool" where
  "fragments_fit st fs =
     (length (comb_optstr st) + sum_list (map (\<lambda>os. length (optstr os)) fs) < 256 \<and>
      length (comb_helpstr st) + sum_list (map (\<lambda>os. length (helpstr os)) fs) < 4096 \<and>
      length (comb_lo st) + sum_list (map (\<lambda>os. length (longopts os)) fs) \<le> 64)"

text \<open>The socket path override has been stored.\<close>

definition vty_sock_set :: "frr_state \<Rightarrow> bool" where
  "vty_sock_set st = (case di st of None \<Rightarrow> False | Some d \<Rightarrow> vty_sock_path d \<noteq> None)"

text \<open>
  The scanner results that \<open>frr_opt\<close> takes for itself and answers with 0, whatever the
  state: the address and port codes while the remote listener is enabled, the socket
  path code, and the user and group codes while privilege separation is enabled. Each
  of these options is declared with \<^verbatim>\<open>required_argument\<close>, so the scanner returns it with
  its argument.
\<close>

definition dispatched :: "frr_flag set \<Rightarrow> getopt_ret \<Rightarrow> bool" where
  "dispatched fs e =
     (ret_optarg e \<noteq> None \<and>
      ((ret_opt e = opt_code CHR ''A'' \<and> FRR_NO_TCPVTY \<notin> fs) \<or>
       (ret_opt e = opt_code CHR ''P'' \<and> FRR_NO_TCPVTY \<notin> fs) \<or>
       ret_opt e = OPTION_VTYSOCK \<or>
       (ret_opt e = opt_code CHR ''u'' \<and> FRR_NO_PRIVSEP \<notin> fs) \<or>
       (ret_opt e = opt_code CHR ''g'' \<and> FRR_NO_PRIVSEP \<notin> fs)))"

text \<open>
  The options that may be given once: whether the state records that the option with
  code \<open>c\<close> has been given.
\<close>

definition already_given :: "int \<Rightarrow> frr_state \<Rightarrow> bool" where
  "already_given c st =
     (if c = opt_code CHR ''A'' then vty_addr_set st
      else if c = opt_code CHR ''P'' then vty_port_set st
      else if c = OPTION_VTYSOCK then vty_sock_set st
      else False)"

text \<open>The state \<open>frr_opt\<close> leaves for one scanner result.\<close>

definition scanned :: "build \<Rightarrow> getopt_ret \<Rightarrow> frr_state \<Rightarrow> frr_state" where
  "scanned b e st =
     (case frr_opt b (ret_opt e) (ret_optarg e) st of
        Return (r, st') \<Rightarrow> st'
      | Exit status st' \<Rightarrow> st'
      | Undefined w \<Rightarrow> st)"

text \<open>The local \<open>lidx\<close> of \<open>frr_getopt\<close> after the scanner has returned the results.\<close>

definition lidx_after :: "nat option \<Rightarrow> getopt_ret list \<Rightarrow> nat option" where
  "lidx_after lidx evs =
     fold (\<lambda>e l. case ret_longind e of Some i \<Rightarrow> Some i | None \<Rightarrow> l) evs lidx"

text \<open>
  What the option handlers never write: the table, the umask, standard output, and
  the flags, names and help of the descriptor.
\<close>

definition static_part ::
  "frr_state \<Rightarrow>
   string \<times> struct_option list \<times> string \<times> nat \<times> string \<times>
   (frr_flag set \<times> string \<times> string \<times> string option \<times> string option) option" where
  "static_part st =
     (comb_optstr st, comb_lo st, comb_helpstr st, umask st, stdout st,
      map_option (\<lambda>d. (flags d, progname d, proghelp d, copyright d, printhelp d)) (di st))"

text \<open>The text \<open>frr_help_exit\<close> writes to its target after the optional first line.\<close>

definition help_text :: "build \<Rightarrow> frr_daemon_info \<Rightarrow> string \<Rightarrow> string" where
  "help_text b d help =
     (case printhelp d of Some txt \<Rightarrow> txt | None \<Rightarrow> usage_text d help) @
     ''\<newline>Report bugs to '' @ FRR_BUG_ADDRESS b @ ''\<newline>''"

text \<open>
  A port argument that \<open>frr_opt\<close> takes without an error: \<open>strtoul\<close> reads all of it,
  and it is not empty.
\<close>

definition valid_port_arg :: "string option \<Rightarrow> bool" where
  "valid_port_arg a = (case a of None \<Rightarrow> False | Some s \<Rightarrow> s \<noteq> [] \<and> snd (strtoul s 0) = [])"

text \<open>What the error count grows by when \<open>frr_opt\<close> returns.\<close>

definition errors_added :: "build \<Rightarrow> int \<Rightarrow> string option \<Rightarrow> frr_state \<Rightarrow> int option" where
  "errors_added b opt a st =
     (case frr_opt b opt a st of
        Return (r, st') \<Rightarrow> Some (errors st' - errors st)
      | Exit status st' \<Rightarrow> None
      | Undefined w \<Rightarrow> None)"

text \<open>The part of a path after its last slash; the whole path when it has none.\<close>

definition last_segment :: "string \<Rightarrow> string" where
  "last_segment p = rev (takeWhile (\<lambda>x. x \<noteq> CHR ''/'') (rev p))"

subsection \<open>A daemon to run the functions on\<close>

definition example_daemon :: frr_daemon_info where
  "example_daemon =
     \<lparr>flags = {}, progname = ''zebra'', proghelp = ''Daemon which manages kernel routing table.'',
      copyright = None, printhelp = None, vty_addr = None, vty_port = 0,
      vty_sock_path = None, privs = \<lparr>user = None, group = None\<rparr>\<rparr>"

definition example_daemon_no_tcpvty :: frr_daemon_info where
  "example_daemon_no_tcpvty = example_daemon\<lparr>flags := {FRR_NO_TCPVTY}\<rparr>"

definition example_build :: build where
  "example_build =
     \<lparr>FRR_BUG_ADDRESS = ''https://github.com/frrouting/frr/issues'', MAXPATHLEN = 4096,
      version_text = (\<lambda>p. p @ '' version'' @ ''\<newline>'')\<rparr>"

text \<open>The state after \<^verbatim>\<open>frr_preinit(&example_daemon, argc, argv)\<close> at process start.\<close>

definition example_state :: frr_state where
  "example_state =
     (case frr_preinit example_daemon [''/usr/sbin/zebra''] (initial_state 18) of
        Return st \<Rightarrow> st
      | Exit status st \<Rightarrow> st
      | Undefined w \<Rightarrow> initial_state 18)"

text \<open>Two scans of the example daemon: the address given twice, and each option given once.\<close>

definition example_scan_twice :: "getopt_ret list" where
  "example_scan_twice =
     [\<lparr>ret_opt = opt_code CHR ''A'', ret_optarg = Some ''127.0.0.1'', ret_longind = Some 5\<rparr>,
      \<lparr>ret_opt = opt_code CHR ''A'', ret_optarg = Some ''::1'', ret_longind = Some 5\<rparr>]"

definition example_scan_once :: "getopt_ret list" where
  "example_scan_once =
     [\<lparr>ret_opt = opt_code CHR ''A'', ret_optarg = Some ''127.0.0.1'', ret_longind = Some 5\<rparr>,
      \<lparr>ret_opt = opt_code CHR ''P'', ret_optarg = Some ''2601'', ret_longind = Some 6\<rparr>,
      \<lparr>ret_opt = OPTION_VTYSOCK, ret_optarg = Some ''/tmp/ov'', ret_longind = Some 2\<rparr>]"

text \<open>A scan with a repeated address and a malformed port.\<close>

definition example_scan_invalid :: "getopt_ret list" where
  "example_scan_invalid =
     [\<lparr>ret_opt = opt_code CHR ''A'', ret_optarg = Some ''127.0.0.1'', ret_longind = Some 5\<rparr>,
      \<lparr>ret_opt = opt_code CHR ''A'', ret_optarg = Some ''::1'', ret_longind = Some 5\<rparr>,
      \<lparr>ret_opt = opt_code CHR ''P'', ret_optarg = Some ''123abc'', ret_longind = Some 6\<rparr>]"

text \<open>A fragment whose short-option string alone is longer than \<^verbatim>\<open>comb_optstr\<close>.\<close>

definition example_fragment :: optspec where
  "example_fragment = \<lparr>optstr = replicate 300 (CHR ''x''), helpstr = [], longopts = []\<rparr>"

section \<open>Lemmas\<close>

subsection \<open>The branches of \<open>frr_opt\<close>\<close>

lemma opt_code_values:
  "opt_code CHR ''h'' = 104" "opt_code CHR ''v'' = 118" "opt_code CHR ''A'' = 65"
  "opt_code CHR ''P'' = 80" "opt_code CHR ''u'' = 117" "opt_code CHR ''g'' = 103"
  "opt_code CHR ''?'' = 63"
  by (simp_all add: opt_code_def)

lemma frr_opt_h: "frr_opt b (opt_code CHR ''h'') a st = frr_help_exit b 0 st"
  by (simp add: frr_opt_def)

lemma frr_opt_v:
  "di st = Some d \<Longrightarrow>
   frr_opt b (opt_code CHR ''v'') a st = Exit 0 (print_version b (progname d) st)"
  by (simp add: frr_opt_def opt_code_values)

lemma frr_opt_A:
  "di st = Some d \<Longrightarrow>
   frr_opt b (opt_code CHR ''A'') a st =
     (if FRR_NO_TCPVTY \<in> flags d then Return (1, st)
      else if vty_addr_set st then
        Return (0, (fprintf Stderr ''-A option specified more than once!\<newline>'' st)
                     \<lparr>errors := errors st + 1\<rparr>)
      else Return (0, st\<lparr>vty_addr_set := True, di := Some (d\<lparr>vty_addr := a\<rparr>)\<rparr>))"
  by (simp add: frr_opt_def opt_code_values)

lemma frr_opt_P:
  "di st = Some d \<Longrightarrow>
   frr_opt b (opt_code CHR ''P'') (Some a) st =
     (if FRR_NO_TCPVTY \<in> flags d then Return (1, st)
      else if vty_port_set st then
        Return (0, (fprintf Stderr ''-P option specified more than once!\<newline>'' st)
                     \<lparr>errors := errors st + 1\<rparr>)
      else if snd (strtoul a 0) \<noteq> [] \<or> a = [] then
        Return (0, (fprintf Stderr
                      (''invalid port number '' @ [CHR 0x22] @ a @ [CHR 0x22] @
                       '' for -P option\<newline>'')
                      (st\<lparr>vty_port_set := True, di := Some (d\<lparr>vty_port := fst (strtoul a 0)\<rparr>)\<rparr>))
                     \<lparr>errors := errors st + 1\<rparr>)
      else Return (0, st\<lparr>vty_port_set := True, di := Some (d\<lparr>vty_port := fst (strtoul a 0)\<rparr>)\<rparr>))"
  by (simp add: frr_opt_def opt_code_values split: prod.split)

lemma frr_opt_P_dup:
  "di st = Some d \<Longrightarrow> FRR_NO_TCPVTY \<notin> flags d \<Longrightarrow> vty_port_set st \<Longrightarrow>
   frr_opt b (opt_code CHR ''P'') a st =
     Return (0, (fprintf Stderr ''-P option specified more than once!\<newline>'' st)
                  \<lparr>errors := errors st + 1\<rparr>)"
  by (simp add: frr_opt_def opt_code_values)

lemma frr_opt_VTYSOCK:
  "di st = Some d \<Longrightarrow>
   frr_opt b OPTION_VTYSOCK a st =
     (if vty_sock_path d \<noteq> None then
        Return (0, (fprintf Stderr ''--vty_socket option specified more than once!\<newline>'' st)
                     \<lparr>errors := errors st + 1\<rparr>)
      else Return (0, st\<lparr>di := Some (d\<lparr>vty_sock_path := a\<rparr>)\<rparr>))"
  by (simp add: frr_opt_def opt_code_values OPTION_VTYSOCK_def)

lemma frr_opt_u:
  "di st = Some d \<Longrightarrow>
   frr_opt b (opt_code CHR ''u'') a st =
     (if FRR_NO_PRIVSEP \<in> flags d then Return (1, st)
      else Return (0, st\<lparr>di := Some (d\<lparr>privs := (privs d)\<lparr>user := a\<rparr>\<rparr>)\<rparr>))"
  by (simp add: frr_opt_def opt_code_values OPTION_VTYSOCK_def)

lemma frr_opt_g:
  "di st = Some d \<Longrightarrow>
   frr_opt b (opt_code CHR ''g'') a st =
     (if FRR_NO_PRIVSEP \<in> flags d then Return (1, st)
      else Return (0, st\<lparr>di := Some (d\<lparr>privs := (privs d)\<lparr>group := a\<rparr>\<rparr>)\<rparr>))"
  by (simp add: frr_opt_def opt_code_values OPTION_VTYSOCK_def)

lemma frr_opt_other:
  "opt \<notin> {opt_code CHR ''h'', opt_code CHR ''v'', opt_code CHR ''A'', opt_code CHR ''P'',
            OPTION_VTYSOCK, opt_code CHR ''u'', opt_code CHR ''g''} \<Longrightarrow>
   frr_opt b opt a st = Return (1, st)"
  by (simp add: frr_opt_def opt_code_values OPTION_VTYSOCK_def)

subsection \<open>The example state\<close>

lemma example_preinit:
  "frr_preinit example_daemon [''/usr/sbin/zebra''] (initial_state 18) =
     Return ((initial_state 18)
       \<lparr>comb_optstr := ''hvu:g:A:P:'',
        comb_lo := lo_always @ lo_user @ lo_vty,
        comb_helpstr := helpstr os_always @ helpstr os_user @ helpstr os_vty,
        di := Some example_daemon, umask := 23\<rparr>)"
  by (simp add: frr_preinit_def strrchr_def example_daemon_def initial_state_def opt_extend_def
      os_always_def os_user_def os_vty_def lo_always_def lo_user_def lo_vty_def)

lemma example_state_fields:
  "di example_state = Some example_daemon"
  "errors example_state = 0"
  "vty_addr_set example_state = False"
  "vty_port_set example_state = False"
  "stdout example_state = []"
  "stderr example_state = []"
  unfolding example_state_def example_preinit
  by (simp_all add: initial_state_def)

lemma example_state_table:
  "comb_optstr example_state = ''hvu:g:A:P:''"
  "comb_lo example_state = lo_always @ lo_user @ lo_vty"
  "comb_helpstr example_state = helpstr os_always @ helpstr os_user @ helpstr os_vty"
  unfolding example_state_def example_preinit
  by (simp_all add: initial_state_def)

lemma example_state_length: "length (comb_lo example_state) = 7"
  by (simp add: example_state_table lo_always_def lo_user_def lo_vty_def)

lemma example_daemon_fields:
  "flags example_daemon = {}"
  "progname example_daemon = ''zebra''"
  "copyright example_daemon = None"
  "printhelp example_daemon = None"
  "vty_addr example_daemon = None"
  "vty_port example_daemon = 0"
  "vty_sock_path example_daemon = None"
  "privs example_daemon = \<lparr>user = None, group = None\<rparr>"
  by (simp_all add: example_daemon_def)

subsection \<open>Option codes\<close>

lemma opt_code_eq [simp]: "opt_code c = opt_code c' \<longleftrightarrow> c = c'"
  by (simp add: opt_code_def)

lemma opt_code_bounds: "0 \<le> opt_code c" "opt_code c < 256"
proof -
  have m: "(of_char c :: int) mod 256 = of_char c"
    by (rule of_char_mod_256)
  have "(of_char c :: int) mod 256 < 256"
    by (rule pos_mod_bound) simp
  with m show "opt_code c < 256"
    by (simp add: opt_code_def)
  have "0 \<le> (of_char c :: int) mod 256"
    by (rule pos_mod_sign) simp
  with m show "0 \<le> opt_code c"
    by (simp add: opt_code_def)
qed

lemma opt_code_not_VTYSOCK [simp]:
  "opt_code c \<noteq> OPTION_VTYSOCK" "OPTION_VTYSOCK \<noteq> opt_code c" "opt_code c \<noteq> - 1"
  using opt_code_bounds [of c] by (simp_all add: OPTION_VTYSOCK_def)

subsection \<open>One scanner result\<close>

lemma scanned_eq:
  assumes "di st = Some d" and "dispatched (flags d) e"
  shows "scanned b e st =
     (if ret_opt e = opt_code CHR ''A'' then
        (if vty_addr_set st then
           (fprintf Stderr ''-A option specified more than once!\<newline>'' st)\<lparr>errors := errors st + 1\<rparr>
         else st\<lparr>vty_addr_set := True, di := Some (d\<lparr>vty_addr := ret_optarg e\<rparr>)\<rparr>)
      else if ret_opt e = opt_code CHR ''P'' then
        (if vty_port_set st then
           (fprintf Stderr ''-P option specified more than once!\<newline>'' st)\<lparr>errors := errors st + 1\<rparr>
         else if valid_port_arg (ret_optarg e) then
           st\<lparr>vty_port_set := True,
              di := Some (d\<lparr>vty_port := fst (strtoul (the (ret_optarg e)) 0)\<rparr>)\<rparr>
         else
           (fprintf Stderr
              (''invalid port number '' @ [CHR 0x22] @ the (ret_optarg e) @ [CHR 0x22] @
               '' for -P option\<newline>'')
              (st\<lparr>vty_port_set := True,
                  di := Some (d\<lparr>vty_port := fst (strtoul (the (ret_optarg e)) 0)\<rparr>)\<rparr>))
           \<lparr>errors := errors st + 1\<rparr>)
      else if ret_opt e = OPTION_VTYSOCK then
        (if vty_sock_path d \<noteq> None then
           (fprintf Stderr ''--vty_socket option specified more than once!\<newline>'' st)
             \<lparr>errors := errors st + 1\<rparr>
         else st\<lparr>di := Some (d\<lparr>vty_sock_path := ret_optarg e\<rparr>)\<rparr>)
      else if ret_opt e = opt_code CHR ''u'' then
        st\<lparr>di := Some (d\<lparr>privs := (privs d)\<lparr>user := ret_optarg e\<rparr>\<rparr>)\<rparr>
      else st\<lparr>di := Some (d\<lparr>privs := (privs d)\<lparr>group := ret_optarg e\<rparr>\<rparr>)\<rparr>)
   \<and> frr_opt b (ret_opt e) (ret_optarg e) st = Return (0, scanned b e st)"
proof -
  consider (A) "ret_opt e = opt_code CHR ''A''" "FRR_NO_TCPVTY \<notin> flags d"
    | (P) a where "ret_opt e = opt_code CHR ''P''" "FRR_NO_TCPVTY \<notin> flags d"
        "ret_optarg e = Some a"
    | (S) "ret_opt e = OPTION_VTYSOCK"
    | (u) "ret_opt e = opt_code CHR ''u''" "FRR_NO_PRIVSEP \<notin> flags d"
    | (g) "ret_opt e = opt_code CHR ''g''" "FRR_NO_PRIVSEP \<notin> flags d"
    using assms(2) by (auto simp: dispatched_def)
  then show ?thesis
  proof cases
    case A
    then show ?thesis using assms(1) by (simp add: scanned_def frr_opt_A)
  next
    case P
    then show ?thesis using assms(1)
      by (simp add: scanned_def frr_opt_P valid_port_arg_def)
  next
    case S
    then show ?thesis using assms(1)
      by (simp add: scanned_def frr_opt_VTYSOCK)
  next
    case u
    then show ?thesis using assms(1)
      by (simp add: scanned_def frr_opt_u)
  next
    case g
    then show ?thesis using assms(1)
      by (simp add: scanned_def frr_opt_g)
  qed
qed

lemma scanned_static:
  assumes "di st = Some d" and "dispatched (flags d) e"
  shows "static_part (scanned b e st) = static_part st"
  using assms by (simp add: scanned_eq static_part_def fprintf_def)

lemma scanned_di:
  assumes "di st = Some d" and "dispatched (flags d) e"
  shows "\<exists>d'. di (scanned b e st) = Some d' \<and> flags d' = flags d"
  using assms by (simp add: scanned_eq fprintf_def)

lemma scanned_errors:
  assumes "di st = Some d" and "dispatched (flags d) e"
  shows "errors (scanned b e st) =
           (if already_given (ret_opt e) st \<or>
               (ret_opt e = opt_code CHR ''P'' \<and> \<not> valid_port_arg (ret_optarg e))
            then errors st + 1 else errors st)"
  using assms
  by (simp add: scanned_eq fprintf_def already_given_def vty_sock_set_def)

lemma scanned_already_given:
  assumes "di st = Some d" and "dispatched (flags d) e"
    and "c \<in> {opt_code CHR ''A'', opt_code CHR ''P'', OPTION_VTYSOCK}"
  shows "already_given c (scanned b e st) \<longleftrightarrow> already_given c st \<or> ret_opt e = c"
  using assms
  by (auto simp add: scanned_eq fprintf_def already_given_def vty_sock_set_def dispatched_def)

subsection \<open>The scan loop\<close>

lemma frr_opt_end: "frr_opt b (- 1) a st = Return (1, st)"
  by (rule frr_opt_other) (simp add: opt_code_values OPTION_VTYSOCK_def)

lemma dispatched_not_end: "dispatched fs e \<Longrightarrow> ret_opt e \<noteq> - 1"
  by (auto simp: dispatched_def opt_code_values OPTION_VTYSOCK_def)

lemma frr_getopt_loop_dispatched:
  assumes "di st = Some d" and "\<forall>e\<in>set evs. dispatched (flags d) e"
  shows "frr_getopt_loop b lidx evs st =
           Return (- 1, lidx_after lidx evs, [], fold (scanned b) evs st)"
  using assms
proof (induction evs arbitrary: st d lidx)
  case Nil
  then show ?case by (simp add: frr_opt_end lidx_after_def)
next
  case (Cons e evs)
  from Cons.prems have e: "dispatched (flags d) e" by simp
  from scanned_di [OF Cons.prems(1) e, of b]
  obtain d' where d': "di (scanned b e st) = Some d'" "flags d' = flags d" by blast
  with Cons.prems have rest: "\<forall>x\<in>set evs. dispatched (flags d') x" by simp
  have step: "frr_opt b (ret_opt e) (ret_optarg e) st = Return (0, scanned b e st)"
    using scanned_eq [OF Cons.prems(1) e] by blast
  show ?case
    using Cons.IH [OF d'(1) rest] dispatched_not_end [OF e]
    by (simp add: step lidx_after_def)
qed

lemma fold_scanned_static:
  assumes "di st = Some d" and "\<forall>e\<in>set evs. dispatched (flags d) e"
  shows "static_part (fold (scanned b) evs st) = static_part st"
  using assms
proof (induction evs arbitrary: st d)
  case Nil
  then show ?case by simp
next
  case (Cons e evs)
  from Cons.prems have e: "dispatched (flags d) e" by simp
  from scanned_di [OF Cons.prems(1) e, of b]
  obtain d' where d': "di (scanned b e st) = Some d'" "flags d' = flags d" by blast
  with Cons.prems have rest: "\<forall>x\<in>set evs. dispatched (flags d') x" by simp
  show ?case
    using Cons.IH [OF d'(1) rest] scanned_static [OF Cons.prems(1) e, of b] by simp
qed

lemma fold_scanned_errors_mono:
  assumes "di st = Some d" and "\<forall>e\<in>set evs. dispatched (flags d) e"
  shows "errors st \<le> errors (fold (scanned b) evs st)"
  using assms
proof (induction evs arbitrary: st d)
  case Nil
  then show ?case by simp
next
  case (Cons e evs)
  from Cons.prems have e: "dispatched (flags d) e" by simp
  from scanned_di [OF Cons.prems(1) e, of b]
  obtain d' where d': "di (scanned b e st) = Some d'" "flags d' = flags d" by blast
  with Cons.prems have rest: "\<forall>x\<in>set evs. dispatched (flags d') x" by simp
  have "errors st \<le> errors (scanned b e st)"
    by (simp add: scanned_errors [OF Cons.prems(1) e])
  with Cons.IH [OF d'(1) rest] show ?case by simp
qed

lemma fold_scanned_again:
  assumes "di st = Some d" and "\<forall>e\<in>set evs. dispatched (flags d) e"
    and "c \<in> {opt_code CHR ''A'', opt_code CHR ''P'', OPTION_VTYSOCK}"
    and "already_given c st" and "c \<in> ret_opt ` set evs"
  shows "errors st < errors (fold (scanned b) evs st)"
  using assms
proof (induction evs arbitrary: st d)
  case Nil
  then show ?case by simp
next
  case (Cons e evs)
  from Cons.prems have e: "dispatched (flags d) e" by simp
  from scanned_di [OF Cons.prems(1) e, of b]
  obtain d' where d': "di (scanned b e st) = Some d'" "flags d' = flags d" by blast
  with Cons.prems have rest: "\<forall>x\<in>set evs. dispatched (flags d') x" by simp
  have given: "already_given c (scanned b e st)"
    using scanned_already_given [OF Cons.prems(1) e Cons.prems(3), of b] Cons.prems(4) by simp
  show ?case
  proof (cases "ret_opt e = c")
    case True
    then have "errors (scanned b e st) = errors st + 1"
      using Cons.prems(4) by (simp add: scanned_errors [OF Cons.prems(1) e])
    with fold_scanned_errors_mono [OF d'(1) rest, of b] show ?thesis by simp
  next
    case False
    with Cons.prems(5) have "c \<in> ret_opt ` set evs" by auto
    from Cons.IH [OF d'(1) rest Cons.prems(3) given this]
    have "errors (scanned b e st) < errors (fold (scanned b) evs (scanned b e st))" .
    moreover have "errors st \<le> errors (scanned b e st)"
      by (simp add: scanned_errors [OF Cons.prems(1) e])
    ultimately show ?thesis by simp
  qed
qed

lemma fold_scanned_twice:
  assumes "di st = Some d" and "\<forall>e\<in>set evs. dispatched (flags d) e"
    and "c \<in> {opt_code CHR ''A'', opt_code CHR ''P'', OPTION_VTYSOCK}"
    and "2 \<le> count_list (map ret_opt evs) c"
  shows "errors st < errors (fold (scanned b) evs st)"
  using assms
proof (induction evs arbitrary: st d)
  case Nil
  then show ?case by simp
next
  case (Cons e evs)
  from Cons.prems have e: "dispatched (flags d) e" by simp
  from scanned_di [OF Cons.prems(1) e, of b]
  obtain d' where d': "di (scanned b e st) = Some d'" "flags d' = flags d" by blast
  with Cons.prems have rest: "\<forall>x\<in>set evs. dispatched (flags d') x" by simp
  have mono: "errors st \<le> errors (scanned b e st)"
    by (simp add: scanned_errors [OF Cons.prems(1) e])
  show ?case
  proof (cases "ret_opt e = c")
    case True
    with Cons.prems(4) have "1 \<le> count_list (map ret_opt evs) c" by simp
    then have "c \<in> set (map ret_opt evs)"
      by (metis count_notin not_one_le_zero)
    then have mem: "c \<in> ret_opt ` set evs" by simp
    have given: "already_given c (scanned b e st)"
      using scanned_already_given [OF Cons.prems(1) e Cons.prems(3), of b] True by simp
    from fold_scanned_again [where b = b, OF d'(1) rest Cons.prems(3) given mem] mono
    show ?thesis by simp
  next
    case False
    with Cons.prems(4) have "2 \<le> count_list (map ret_opt evs) c" by simp
    from Cons.IH [OF d'(1) rest Cons.prems(3) this]
    have "errors (scanned b e st) < errors (fold (scanned b) evs (scanned b e st))" .
    with mono show ?thesis by simp
  qed
qed

lemma fold_scanned_once:
  assumes "di st = Some d" and "\<forall>e\<in>set evs. dispatched (flags d) e"
    and "\<forall>c\<in>{opt_code CHR ''A'', opt_code CHR ''P'', OPTION_VTYSOCK}.
           if already_given c st then c \<notin> ret_opt ` set evs
           else count_list (map ret_opt evs) c \<le> 1"
    and "\<forall>e\<in>set evs. ret_opt e = opt_code CHR ''P'' \<longrightarrow> valid_port_arg (ret_optarg e)"
  shows "errors (fold (scanned b) evs st) = errors st"
  using assms
proof (induction evs arbitrary: st d)
  case Nil
  then show ?case by simp
next
  case (Cons e evs)
  from Cons.prems have e: "dispatched (flags d) e" by simp
  from scanned_di [OF Cons.prems(1) e, of b]
  obtain d' where d': "di (scanned b e st) = Some d'" "flags d' = flags d" by blast
  with Cons.prems have rest: "\<forall>x\<in>set evs. dispatched (flags d') x" by simp
  have here: "errors (scanned b e st) = errors st"
    using Cons.prems(3,4)
    by (auto simp add: scanned_errors [OF Cons.prems(1) e] already_given_def)
  have inv: "\<forall>c\<in>{opt_code CHR ''A'', opt_code CHR ''P'', OPTION_VTYSOCK}.
           if already_given c (scanned b e st) then c \<notin> ret_opt ` set evs
           else count_list (map ret_opt evs) c \<le> 1"
  proof
    fix c assume c: "c \<in> {opt_code CHR ''A'', opt_code CHR ''P'', OPTION_VTYSOCK}"
    from Cons.prems(3) c
    have p: "if already_given c st then c \<notin> ret_opt ` set (e # evs)
             else count_list (map ret_opt (e # evs)) c \<le> 1" by blast
    show "if already_given c (scanned b e st) then c \<notin> ret_opt ` set evs
          else count_list (map ret_opt evs) c \<le> 1"
    proof (cases "already_given c st")
      case True
      with p scanned_already_given [OF Cons.prems(1) e c, of b] show ?thesis by auto
    next
      case False
      show ?thesis
      proof (cases "ret_opt e = c")
        case True
        with p False have "count_list (map ret_opt evs) c = 0" by simp
        then have "c \<notin> set (map ret_opt evs)" by (simp add: count_list_0_iff)
        with True scanned_already_given [OF Cons.prems(1) e c, of b] show ?thesis by simp
      next
        case neq: False
        with p False scanned_already_given [OF Cons.prems(1) e c, of b] show ?thesis by simp
      qed
    qed
  qed
  from Cons.prems(4) have ports: "\<forall>x\<in>set evs. ret_opt x = opt_code CHR ''P'' \<longrightarrow> valid_port_arg (ret_optarg x)"
    by simp
  from Cons.IH [OF d'(1) rest inv ports]
  have "errors (fold (scanned b) evs (scanned b e st)) = errors (scanned b e st)" .
  with here show ?case by simp
qed

lemma frr_help_exit_eq:
  assumes "di st = Some d"
  shows "frr_help_exit b status st =
     Exit status
       (if status \<noteq> 0 then
          st\<lparr>stderr := stderr st @ ''Invalid options.\<newline>\<newline>'' @ help_text b d (comb_helpstr st)\<rparr>
        else st\<lparr>stdout := stdout st @ help_text b d (comb_helpstr st)\<rparr>)"
  using assms
  by (simp add: frr_help_exit_def fprintf_def help_text_def Let_def split: option.split)

lemma static_part_eqD:
  assumes "static_part st' = static_part st" and "di st = Some d"
  shows "\<exists>d'. di st' = Some d' \<and> flags d' = flags d \<and> progname d' = progname d \<and>
              help_text b d' h = help_text b d h"
    and "comb_lo st' = comb_lo st" and "comb_helpstr st' = comb_helpstr st"
    and "stdout st' = stdout st" and "comb_optstr st' = comb_optstr st"
  using assms by (auto simp: static_part_def help_text_def usage_text_def split: option.splits)

lemma frr_getopt_loop_append:
  assumes "di st = Some d" and "\<forall>e\<in>set pre. dispatched (flags d) e"
  shows "frr_getopt_loop b lidx (pre @ rest) st =
           frr_getopt_loop b (lidx_after lidx pre) rest (fold (scanned b) pre st)"
  using assms
proof (induction pre arbitrary: st d lidx)
  case Nil
  then show ?case by (simp add: lidx_after_def)
next
  case (Cons e pre)
  from Cons.prems have e: "dispatched (flags d) e" by simp
  from scanned_di [OF Cons.prems(1) e, of b]
  obtain d' where d': "di (scanned b e st) = Some d'" "flags d' = flags d" by blast
  with Cons.prems have rest: "\<forall>x\<in>set pre. dispatched (flags d') x" by simp
  have step: "frr_opt b (ret_opt e) (ret_optarg e) st = Return (0, scanned b e st)"
    using scanned_eq [OF Cons.prems(1) e] by blast
  show ?case
    using Cons.IH [OF d'(1) rest] dispatched_not_end [OF e]
    by (simp add: step lidx_after_def)
qed

subsection \<open>Where the process exits\<close>

lemma frr_help_exit_status:
  "frr_help_exit b s st = (Exit s' st' :: 'a outcome) \<Longrightarrow> s' = s"
  by (simp add: frr_help_exit_def Let_def split: option.splits)

lemma frr_opt_exit_status: "frr_opt b opt a st = Exit s st' \<Longrightarrow> s = 0"
  by (auto simp: frr_opt_def Let_def dest: frr_help_exit_status
      split: if_splits option.splits prod.splits)

lemma frr_getopt_loop_exit_status:
  "frr_getopt_loop b lidx evs st = Exit s st' \<Longrightarrow> s = 0"
proof (induction evs arbitrary: lidx st)
  case Nil
  then show ?case by (simp add: frr_opt_end)
next
  case (Cons e evs)
  show ?case
  proof (cases "frr_opt b (ret_opt e) (ret_optarg e) st")
    case (Return p)
    obtain r st1 where p: "p = (r, st1)" by (cases p)
    with Return Cons.prems Cons.IH show ?thesis
      by (auto simp: Let_def split: if_splits)
  next
    case (Exit s1 st1)
    with Cons.prems frr_opt_exit_status [OF Exit] show ?thesis by simp
  next
    case (Undefined w)
    with Cons.prems show ?thesis by simp
  qed
qed

lemma frr_getopt_loop_return_end:
  assumes "\<forall>e\<in>set evs. ret_opt e \<noteq> - 1"
    and "frr_getopt_loop b lidx evs st = Return (- 1, l, rest, st')"
  shows "rest = []"
  using assms
proof (induction evs arbitrary: lidx st)
  case Nil
  then show ?case by (simp add: frr_opt_end)
next
  case (Cons e evs)
  show ?case
  proof (cases "frr_opt b (ret_opt e) (ret_optarg e) st")
    case (Return p)
    obtain r st1 where p: "p = (r, st1)" by (cases p)
    with Return Cons.prems Cons.IH show ?thesis
      by (auto simp: Let_def split: if_splits)
  next
    case (Exit s1 st1)
    with Cons.prems show ?thesis by simp
  next
    case (Undefined w)
    with Cons.prems show ?thesis by simp
  qed
qed

lemma frr_getopt_failure_exit:
  assumes "\<forall>e\<in>set evs. ret_opt e \<noteq> - 1"
    and "frr_getopt b evs st = Exit status st'" and "status \<noteq> 0"
  shows "status = 1 \<and>
         (\<exists>lidx st''. frr_getopt_loop b None evs st = Return (- 1, lidx, [], st'') \<and>
                      errors st'' \<noteq> 0)"
proof (cases "frr_getopt_loop b None evs st")
  case (Return p)
  obtain opt lidx rest st1 where p: "p = (opt, lidx, rest, st1)" by (cases p)
  from assms(2) Return p
  have c: "opt = - 1 \<and> errors st1 \<noteq> 0" and x: "status = 1"
    by (auto simp: frr_getopt_def dest: frr_help_exit_status split: if_splits)
  from c Return p have "rest = []"
    using frr_getopt_loop_return_end [OF assms(1), of b None st lidx rest st1] by simp
  with c x Return p show ?thesis by simp
next
  case (Exit s1 st1)
  with assms frr_getopt_loop_exit_status [OF Exit] show ?thesis
    by (simp add: frr_getopt_def split: if_splits)
next
  case (Undefined w)
  with assms show ?thesis by (simp add: frr_getopt_def split: if_splits)
qed

lemma frr_opt_h_exit:
  "di st = Some d \<Longrightarrow>
   frr_opt b (opt_code CHR ''h'') a st =
     Exit 0 (st\<lparr>stdout := stdout st @ help_text b d (comb_helpstr st)\<rparr>)"
  by (simp add: frr_opt_h frr_help_exit_eq)

lemma frr_opt_v_exit:
  "di st = Some d \<Longrightarrow>
   frr_opt b (opt_code CHR ''v'') a st =
     Exit 0 (st\<lparr>stdout := stdout st @ version_text b (progname d)\<rparr>)"
  by (simp add: frr_opt_v print_version_def fprintf_def)

subsection \<open>Values of \<open>strtoul\<close>\<close>

lemmas strtoul_eval = strtoul_def isspace_def digit_value_def isxdigit_def ULONG_MAX_def Let_def

lemma strtoul_examples:
  "strtoul ''0'' 0 = (0, [])"
  "strtoul ''65535'' 0 = (65535, [])"
  "strtoul ''2601'' 0 = (2601, [])"
  "strtoul ''abc'' 0 = (0, ''abc'')"
  "strtoul ''123abc'' 0 = (123, ''abc'')"
  "strtoul [] 0 = (0, [])"
  by (simp_all add: strtoul_eval)

lemma strtoul_more_examples:
  "strtoul ''0x1F'' 0 = (31, [])"
  "strtoul ''08'' 0 = (0, ''8'')"
  "strtoul '' 7'' 0 = (7, [])"
  "strtoul ''-1'' 0 = (18446744073709551615, [])"
  "strtoul ''65536'' 0 = (65536, [])"
  by (simp_all add: strtoul_eval)

subsection \<open>What \<open>strtoul\<close> leaves unread\<close>







lemma frr_opt_P_invalid:
  assumes "di st = Some d" and "FRR_NO_TCPVTY \<notin> flags d" and "\<not> vty_port_set st"
    and "\<not> valid_port_arg (Some s)"
  shows "frr_opt b (opt_code CHR ''P'') (Some s) st =
           Return (0, st\<lparr>vty_port_set := True,
                         di := Some (d\<lparr>vty_port := fst (strtoul s 0)\<rparr>),
                         stderr := stderr st @ ''invalid port number '' @ [CHR 0x22] @ s @
                                   [CHR 0x22] @ '' for -P option\<newline>'',
                         errors := errors st + 1\<rparr>)"
  using assms by (auto simp add: frr_opt_P fprintf_def valid_port_arg_def)

subsection \<open>Appending to the table\<close>

lemma opt_extend_eq:
  "opt_extend os st =
     (if fragments_fit st [os] then
        Return (st\<lparr>comb_optstr := comb_optstr st @ optstr os,
                   comb_helpstr := comb_helpstr st @ helpstr os,
                   comb_lo := comb_lo st @ longopts os\<rparr>)
      else Undefined Overrun)"
  by (auto simp: opt_extend_def fragments_fit_def)

lemma opt_extend_not_exit: "\<not> is_Exit (opt_extend os st)"
  by (simp add: opt_extend_eq)

lemma is_Exit_seq:
  "is_Exit (seq m f) \<longleftrightarrow> is_Exit m \<or> (\<exists>x. m = Return x \<and> is_Exit (f x))"
  by (cases m) simp_all

lemma frr_preinit_not_exit: "\<not> is_Exit (frr_preinit daemon argv st)"
  by (simp add: frr_preinit_def Let_def is_Exit_seq opt_extend_not_exit split: list.split)

lemma opt_extend_all_eq:
  assumes "within_capacity st"
  shows "opt_extend_all fs st =
     (if fragments_fit st fs then
        Return (st\<lparr>comb_optstr := comb_optstr st @ concat (map optstr fs),
                   comb_helpstr := comb_helpstr st @ concat (map helpstr fs),
                   comb_lo := comb_lo st @ concat (map longopts fs)\<rparr>)
      else Undefined Overrun)"
  using assms
proof (induction fs arbitrary: st)
  case Nil
  then show ?case by (simp add: fragments_fit_def within_capacity_def)
next
  case (Cons os fs)
  show ?case
  proof (cases "fragments_fit st [os]")
    case True
    let ?st = "st\<lparr>comb_optstr := comb_optstr st @ optstr os,
                   comb_helpstr := comb_helpstr st @ helpstr os,
                   comb_lo := comb_lo st @ longopts os\<rparr>"
    from True have w: "within_capacity ?st"
      by (simp add: fragments_fit_def within_capacity_def)
    have f: "fragments_fit ?st fs = fragments_fit st (os # fs)"
      by (simp add: fragments_fit_def add.assoc)
    from True show ?thesis
      by (simp add: opt_extend_eq Cons.IH [OF w] f)
  next
    case False
    then have "\<not> fragments_fit st (os # fs)"
      by (auto simp: fragments_fit_def)
    with False show ?thesis
      by (simp add: opt_extend_eq)
  qed
qed

lemma fragments_fit_mset:
  assumes "mset fs = mset gs"
  shows "fragments_fit st fs = fragments_fit st gs"
proof -
  have "sum_list (map f fs) = sum_list (map f gs)" for f :: "optspec \<Rightarrow> nat"
  proof -
    have "mset (map f fs) = mset (map f gs)"
      using assms by (metis mset_map)
    then show ?thesis
      by (metis sum_mset_sum_list)
  qed
  then show ?thesis
    by (simp add: fragments_fit_def)
qed

subsection \<open>Path segments and \<open>frr_preinit\<close> as a sequence of registrations\<close>

lemma last_segment_no_slash:
  assumes "CHR ''/'' \<notin> set p"
  shows "last_segment p = p"
proof -
  have "\<forall>x\<in>set (rev p). x \<noteq> CHR ''/''"
    using assms by auto
  then have "takeWhile (\<lambda>x. x \<noteq> CHR ''/'') (rev p) = rev p"
    by (rule takeWhile_eq_all_conv [THEN iffD2])
  then show ?thesis
    unfolding last_segment_def by (simp only: rev_rev_ident)
qed

lemma last_segment_append:
  "CHR ''/'' \<notin> set seg \<Longrightarrow> last_segment (pre @ ''/'' @ seg) = seg"
proof -
  assume a: "CHR ''/'' \<notin> set seg"
  have "rev (pre @ ''/'' @ seg) = rev seg @ CHR ''/'' # rev pre"
    by simp
  moreover have "takeWhile (\<lambda>x. x \<noteq> CHR ''/'') (rev seg @ CHR ''/'' # rev pre) = rev seg"
    using a by (auto simp add: takeWhile_tail)
  ultimately show ?thesis by (simp add: last_segment_def)
qed

lemma basename_eq:
  "(case strrchr p CHR ''/'' of Some q \<Rightarrow> tl q | None \<Rightarrow> p) = last_segment p"
  by (simp add: strrchr_def last_segment_def last_segment_no_slash [unfolded last_segment_def])

lemma opt_extend_all_funs:
  "opt_extend_all [] = Return"
  "opt_extend_all (os # rest) = (\<lambda>st. seq (opt_extend os st) (opt_extend_all rest))"
  by (rule ext, simp)+

lemma seq_Return_right: "seq m Return = m"
  by (cases m) simp_all

lemma frr_preinit_eq:
  "frr_preinit daemon (argv0 # args) st =
     opt_extend_all
       (os_always # (if FRR_NO_PRIVSEP \<in> flags daemon then [] else [os_user]) @
                    (if FRR_NO_TCPVTY \<in> flags daemon then [] else [os_vty]))
       (st\<lparr>di := Some (daemon\<lparr>progname := last_segment argv0\<rparr>), umask := 23\<rparr>)"
  by (simp add: frr_preinit_def basename_eq Let_def opt_extend_all_funs seq_Return_right)

lemma fragment_lengths:
  "length (optstr os_always) = 2" "length (helpstr os_always) = 137"
  "length (longopts os_always) = 3"
  "length (optstr os_user) = 4" "length (helpstr os_user) = 73"
  "length (longopts os_user) = 2"
  "length (optstr os_vty) = 4" "length (helpstr os_vty) = 87"
  "length (longopts os_vty) = 2"
  by (simp_all add: os_always_def os_user_def os_vty_def lo_always_def lo_user_def lo_vty_def)

section \<open>The claims\<close>

subsection \<open>Capacity of the table\<close>

text \<open>
  C1, as amended. Registration has no capacity check and no failure exit: neither
  \<open>opt_extend\<close> nor \<open>frr_opt_add\<close> nor \<open>frr_preinit\<close> ever exits the process. Starting
  from a table inside its arrays, a sequence of registrations whose total lengths fit
  (short options below 256 bytes, help below 4096 bytes, at most 64 long options)
  returns with the fragments appended unchanged, in order. Whether a sequence of
  registrations stays inside the arrays depends on the totals only, so it is the same
  for every order of the fragments. What a registration that does not fit does is not
  defined by the code.
\<close>

theorem registration_has_no_capacity_check:
  "\<not> is_Exit (opt_extend os st)
   \<and> \<not> is_Exit (frr_opt_add ostr lopts hstr st)
   \<and> \<not> is_Exit (frr_preinit daemon argv st)
   \<and> frr_opt_add ostr lopts hstr st =
       opt_extend_all [\<lparr>optstr = ostr, helpstr = hstr, longopts = lopts\<rparr>] st
   \<and> (within_capacity st \<longrightarrow>
        opt_extend_all fs st =
          (if fragments_fit st fs then
             Return (st\<lparr>comb_optstr := comb_optstr st @ concat (map optstr fs),
                        comb_helpstr := comb_helpstr st @ concat (map helpstr fs),
                        comb_lo := comb_lo st @ concat (map longopts fs)\<rparr>)
           else Undefined Overrun))
   \<and> (within_capacity st \<and> mset fs = mset gs \<longrightarrow>
        (opt_extend_all fs st = Undefined Overrun \<longleftrightarrow>
         opt_extend_all gs st = Undefined Overrun))"
proof (intro conjI impI)
  show "\<not> is_Exit (opt_extend os st)"
    by (rule opt_extend_not_exit)
  show "\<not> is_Exit (frr_opt_add ostr lopts hstr st)"
    by (simp add: frr_opt_add_def opt_extend_not_exit)
  show "\<not> is_Exit (frr_preinit daemon argv st)"
    by (rule frr_preinit_not_exit)
  show "frr_opt_add ostr lopts hstr st =
          opt_extend_all [\<lparr>optstr = ostr, helpstr = hstr, longopts = lopts\<rparr>] st"
    by (simp add: frr_opt_add_def opt_extend_all_funs seq_Return_right)
  show "opt_extend_all fs st =
          (if fragments_fit st fs then
             Return (st\<lparr>comb_optstr := comb_optstr st @ concat (map optstr fs),
                        comb_helpstr := comb_helpstr st @ concat (map helpstr fs),
                        comb_lo := comb_lo st @ concat (map longopts fs)\<rparr>)
           else Undefined Overrun)"
    if "within_capacity st"
    by (rule opt_extend_all_eq [OF that])
  show "opt_extend_all fs st = Undefined Overrun \<longleftrightarrow> opt_extend_all gs st = Undefined Overrun"
    if "within_capacity st \<and> mset fs = mset gs"
    using that fragments_fit_mset [of fs gs st]
    by (simp add: opt_extend_all_eq)
qed

theorem registration_has_no_capacity_check_witness:
  "within_capacity (initial_state 18)
   \<and> mset [os_user, os_always] = mset [os_always, os_user]
   \<and> opt_extend_all [os_user, os_always] (initial_state 18) =
       Return ((initial_state 18)
                 \<lparr>comb_optstr := ''u:g:hv'',
                  comb_helpstr := helpstr os_user @ helpstr os_always,
                  comb_lo := lo_user @ lo_always\<rparr>)
   \<and> mset [example_fragment, os_always] = mset [os_always, example_fragment]
   \<and> opt_extend_all [example_fragment, os_always] (initial_state 18) = Undefined Overrun
   \<and> opt_extend_all [os_always, example_fragment] (initial_state 18) = Undefined Overrun"
proof -
  have w: "within_capacity (initial_state 18)"
    by (simp add: within_capacity_def initial_state_def)
  have m1: "mset [os_user, os_always] = mset [os_always, os_user]"
    by (simp add: add_mset_commute)
  have m2: "mset [example_fragment, os_always] = mset [os_always, example_fragment]"
    by (simp add: add_mset_commute)
  have fit: "fragments_fit (initial_state 18) [os_user, os_always]"
    by (simp add: fragments_fit_def initial_state_def os_user_def os_always_def
        lo_user_def lo_always_def)
  have over: "opt_extend_all [example_fragment, os_always] (initial_state 18) = Undefined Overrun"
    by (simp add: opt_extend_def example_fragment_def initial_state_def)
  note t1 = registration_has_no_capacity_check
              [of undefined "initial_state 18" "[]" "[]" "[]" undefined "[]"
                  "[os_user, os_always]" "[os_always, os_user]"]
  note t2 = registration_has_no_capacity_check
              [of undefined "initial_state 18" "[]" "[]" "[]" undefined "[]"
                  "[example_fragment, os_always]" "[os_always, example_fragment]"]
  from t1 w fit
  have c1: "opt_extend_all [os_user, os_always] (initial_state 18) =
       Return ((initial_state 18)
                 \<lparr>comb_optstr := ''u:g:hv'',
                  comb_helpstr := helpstr os_user @ helpstr os_always,
                  comb_lo := lo_user @ lo_always\<rparr>)"
    by (simp add: initial_state_def os_user_def os_always_def)
  from t2 w m2 over
  have c2: "opt_extend_all [os_always, example_fragment] (initial_state 18) = Undefined Overrun"
    by blast
  from w m1 m2 c1 over c2 show ?thesis by blast
qed

text \<open>
  The claim as stated has such a registration fail with an exit. After \<open>frr_preinit\<close>
  the short-option string holds 10 characters; 246 more need 257 bytes with the
  terminator, and \<^verbatim>\<open>strcat\<close> writes the last one past \<^verbatim>\<open>comb_optstr[256]\<close>. There is no exit.
\<close>

theorem registration_overrun_counterexample:
  "frr_opt_add (replicate 246 (CHR ''x'')) [] [] example_state = Undefined Overrun
   \<and> \<not> is_Exit (frr_opt_add (replicate 246 (CHR ''x'')) [] [] example_state)"
  by (simp add: frr_opt_add_def opt_extend_def example_state_table)

subsection \<open>The port value\<close>



subsection \<open>Options that may be given once\<close>

text \<open>
  C3, as amended. Let the scanner return, in one call of \<open>frr_getopt\<close>, results that are
  all options \<open>frr_opt\<close> takes for itself with their argument. If one of \<^verbatim>\<open>--vty_addr\<close>,
  \<^verbatim>\<open>--vty_port\<close>, \<^verbatim>\<open>--vty_socket\<close> occurs among them twice or more, or once after an earlier
  call has taken it, the error count is positive once they are scanned, whatever the
  scanner returns after them. The exit with status 1 comes only when the scan reaches
  its end: if these results are all the scanner returns before \<open>-1\<close>, and such a
  repetition is among them or an error was counted before, the call exits with status
  1, the count positive and nothing written to standard output. If, from a state in
  which none of the three has been given and no error is counted, each of them occurs
  at most once (so also: exactly once) and every port value is valid, and the scan
  reaches its end, the call returns \<open>-1\<close> with all results taken and an error count
  of 0.
\<close>

theorem single_valued_options_twice_or_once:
  assumes "di st = Some d" and "length (comb_lo st) < 64"
    and "\<forall>e\<in>set evs. dispatched (flags d) e"
  shows "(0 \<le> errors st \<and> c \<in> {opt_code CHR ''A'', opt_code CHR ''P'', OPTION_VTYSOCK} \<and>
          (2 \<le> count_list (map ret_opt evs) c \<or>
           (already_given c st \<and> c \<in> ret_opt ` set evs)) \<longrightarrow>
            0 < errors (fold (scanned b) evs st) \<and>
            frr_getopt_loop b lidx (evs @ rest) st =
              frr_getopt_loop b (lidx_after lidx evs) rest (fold (scanned b) evs st))
       \<and> (0 \<le> errors st \<and> c \<in> {opt_code CHR ''A'', opt_code CHR ''P'', OPTION_VTYSOCK} \<and>
          (2 \<le> count_list (map ret_opt evs) c \<or>
           (already_given c st \<and> c \<in> ret_opt ` set evs)) \<longrightarrow>
            (\<exists>st'. frr_getopt b evs st = Exit 1 st' \<and> 0 < errors st' \<and> stdout st' = stdout st))
       \<and> (0 < errors st \<longrightarrow>
            (\<exists>st'. frr_getopt b evs st = Exit 1 st' \<and> 0 < errors st' \<and> stdout st' = stdout st))
       \<and> (errors st = 0 \<and> \<not> vty_addr_set st \<and> \<not> vty_port_set st \<and> vty_sock_path d = None \<and>
          count_list (map ret_opt evs) (opt_code CHR ''A'') \<le> 1 \<and>
          count_list (map ret_opt evs) (opt_code CHR ''P'') \<le> 1 \<and>
          count_list (map ret_opt evs) OPTION_VTYSOCK \<le> 1 \<and>
          (\<forall>e\<in>set evs. ret_opt e = opt_code CHR ''P'' \<longrightarrow> valid_port_arg (ret_optarg e)) \<longrightarrow>
            (\<exists>lidx st'. frr_getopt b evs st = Return (- 1, lidx, [], st') \<and> errors st' = 0))"
proof -
  let ?st = "fold (scanned b) evs st"
  have loop: "frr_getopt_loop b None evs st = Return (- 1, lidx_after None evs, [], ?st)"
    by (rule frr_getopt_loop_dispatched [OF assms(1,3)])
  from static_part_eqD(1) [OF fold_scanned_static [OF assms(1,3), of b] assms(1)]
  obtain d' where d': "di ?st = Some d'" by blast
  have out: "stdout ?st = stdout st"
    by (rule static_part_eqD [OF fold_scanned_static [OF assms(1,3), of b] assms(1)])
  have mono: "errors st \<le> errors ?st"
    by (rule fold_scanned_errors_mono [OF assms(1,3)])
  have raised: "0 < errors ?st"
    if a: "0 \<le> errors st \<and> c \<in> {opt_code CHR ''A'', opt_code CHR ''P'', OPTION_VTYSOCK} \<and>
          (2 \<le> count_list (map ret_opt evs) c \<or>
           (already_given c st \<and> c \<in> ret_opt ` set evs))"
  proof -
    from a have c: "c \<in> {opt_code CHR ''A'', opt_code CHR ''P'', OPTION_VTYSOCK}" by blast
    from a consider "2 \<le> count_list (map ret_opt evs) c"
      | "already_given c st" "c \<in> ret_opt ` set evs" by blast
    then have "errors st < errors ?st"
    proof cases
      case 1
      then show ?thesis by (rule fold_scanned_twice [OF assms(1,3) c])
    next
      case 2
      then show ?thesis by (rule fold_scanned_again [OF assms(1,3) c])
    qed
    with a show ?thesis by simp
  qed
  have failure: "\<exists>st'. frr_getopt b evs st = Exit 1 st' \<and> 0 < errors st' \<and> stdout st' = stdout st"
    if "0 < errors ?st"
    using that assms(2) out
    by (simp add: frr_getopt_def loop frr_help_exit_eq [OF d'])
  have append: "frr_getopt_loop b lidx (evs @ rest) st =
                  frr_getopt_loop b (lidx_after lidx evs) rest ?st"
    by (rule frr_getopt_loop_append [OF assms(1,3)])
  have once: "\<exists>lidx st'. frr_getopt b evs st = Return (- 1, lidx, [], st') \<and> errors st' = 0"
    if a: "errors st = 0 \<and> \<not> vty_addr_set st \<and> \<not> vty_port_set st \<and> vty_sock_path d = None \<and>
          count_list (map ret_opt evs) (opt_code CHR ''A'') \<le> 1 \<and>
          count_list (map ret_opt evs) (opt_code CHR ''P'') \<le> 1 \<and>
          count_list (map ret_opt evs) OPTION_VTYSOCK \<le> 1 \<and>
          (\<forall>e\<in>set evs. ret_opt e = opt_code CHR ''P'' \<longrightarrow> valid_port_arg (ret_optarg e))"
  proof -
    from a have inv: "\<forall>c\<in>{opt_code CHR ''A'', opt_code CHR ''P'', OPTION_VTYSOCK}.
           if already_given c st then c \<notin> ret_opt ` set evs
           else count_list (map ret_opt evs) c \<le> 1"
      using assms(1) by (simp add: already_given_def vty_sock_set_def)
    from a have ports: "\<forall>e\<in>set evs. ret_opt e = opt_code CHR ''P'' \<longrightarrow> valid_port_arg (ret_optarg e)"
      by blast
    from fold_scanned_once [OF assms(1,3) inv ports, of b] a
    have "errors ?st = 0" by simp
    then show ?thesis
      using assms(2) by (simp add: frr_getopt_def loop)
  qed
  from mono have carried: "0 < errors ?st" if "0 < errors st"
    using that by simp
  show ?thesis
    using raised failure append once carried by blast
qed

theorem single_valued_options_twice_or_once_witness:
  "di example_state = Some example_daemon
   \<and> length (comb_lo example_state) < 64
   \<and> list_all (dispatched (flags example_daemon)) example_scan_twice
   \<and> 2 \<le> count_list (map ret_opt example_scan_twice) (opt_code CHR ''A'')
   \<and> 0 < errors (fold (scanned example_build) example_scan_twice example_state)
   \<and> (\<exists>st'. frr_getopt example_build example_scan_twice example_state = Exit 1 st' \<and>
             0 < errors st' \<and> stdout st' = stdout example_state)
   \<and> already_given (opt_code CHR ''A'') (example_state\<lparr>vty_addr_set := True\<rparr>)
   \<and> opt_code CHR ''A'' \<in> ret_opt ` set example_scan_once
   \<and> (\<exists>st'. frr_getopt example_build example_scan_once (example_state\<lparr>vty_addr_set := True\<rparr>) =
               Exit 1 st' \<and> 0 < errors st')
   \<and> 0 < errors (example_state\<lparr>errors := 1\<rparr>)
   \<and> (\<exists>st'. frr_getopt example_build example_scan_once (example_state\<lparr>errors := 1\<rparr>) =
               Exit 1 st' \<and> 0 < errors st')
   \<and> list_all (dispatched (flags example_daemon)) example_scan_once
   \<and> count_list (map ret_opt example_scan_once) (opt_code CHR ''A'') = 1
   \<and> count_list (map ret_opt example_scan_once) (opt_code CHR ''P'') = 1
   \<and> count_list (map ret_opt example_scan_once) OPTION_VTYSOCK = 1
   \<and> valid_port_arg (Some ''2601'')
   \<and> (\<exists>lidx st'. frr_getopt example_build example_scan_once example_state =
                      Return (- 1, lidx, [], st') \<and> errors st' = 0)"
proof -
  let ?A = "opt_code CHR ''A''"
  have h1: "di example_state = Some example_daemon"
    by (simp add: example_state_fields)
  have h1a: "di (example_state\<lparr>vty_addr_set := True\<rparr>) = Some example_daemon"
    by (simp add: example_state_fields)
  have h1e: "di (example_state\<lparr>errors := 1\<rparr>) = Some example_daemon"
    by (simp add: example_state_fields)
  have h2: "length (comb_lo example_state) < 64"
    by (simp add: example_state_length)
  have h2a: "length (comb_lo (example_state\<lparr>vty_addr_set := True\<rparr>)) < 64"
    by (simp add: example_state_length)
  have h2e: "length (comb_lo (example_state\<lparr>errors := 1\<rparr>)) < 64"
    by (simp add: example_state_length)
  have h3: "\<forall>e\<in>set example_scan_twice. dispatched (flags example_daemon) e"
    by (simp add: example_scan_twice_def dispatched_def example_daemon_fields)
  have h4: "\<forall>e\<in>set example_scan_once. dispatched (flags example_daemon) e"
    by (simp add: example_scan_once_def dispatched_def example_daemon_fields)
  have c2: "2 \<le> count_list (map ret_opt example_scan_twice) ?A"
    by (simp add: example_scan_twice_def)
  have c1: "count_list (map ret_opt example_scan_once) ?A = 1"
    "count_list (map ret_opt example_scan_once) (opt_code CHR ''P'') = 1"
    "count_list (map ret_opt example_scan_once) OPTION_VTYSOCK = 1"
    by (simp_all add: example_scan_once_def)
  have g: "already_given ?A (example_state\<lparr>vty_addr_set := True\<rparr>)"
    by (simp add: already_given_def)
  have m: "?A \<in> ret_opt ` set example_scan_once"
    by (simp add: example_scan_once_def)
  have e0: "0 \<le> errors example_state" "0 \<le> errors (example_state\<lparr>vty_addr_set := True\<rparr>)"
    by (simp_all add: example_state_fields)
  have e1: "0 < errors (example_state\<lparr>errors := 1\<rparr>)"
    by simp
  have v: "valid_port_arg (Some ''2601'')"
    by (simp add: valid_port_arg_def strtoul_examples)
  have ports: "\<forall>e\<in>set example_scan_once.
                 ret_opt e = opt_code CHR ''P'' \<longrightarrow> valid_port_arg (ret_optarg e)"
    using v by (simp add: example_scan_once_def)
  have mem: "?A \<in> {opt_code CHR ''A'', opt_code CHR ''P'', OPTION_VTYSOCK}"
    by simp
  note t = single_valued_options_twice_or_once [OF h1 h2 h3, of ?A example_build None "[]"]
  note ta = single_valued_options_twice_or_once [OF h1a h2a h4, of ?A example_build None "[]"]
  note te = single_valued_options_twice_or_once [OF h1e h2e h4, of ?A example_build None "[]"]
  note t1 = single_valued_options_twice_or_once [OF h1 h2 h4, of ?A example_build None "[]"]
  from t e0(1) mem c2
  have r: "0 < errors (fold (scanned example_build) example_scan_twice example_state)"
    by blast
  from t e0(1) mem c2
  have twice: "\<exists>st'. frr_getopt example_build example_scan_twice example_state = Exit 1 st' \<and>
                     0 < errors st' \<and> stdout st' = stdout example_state"
    by blast
  from ta e0(2) mem g m
  have again: "\<exists>st'. frr_getopt example_build example_scan_once
                      (example_state\<lparr>vty_addr_set := True\<rparr>) = Exit 1 st' \<and> 0 < errors st'"
    by blast
  from te e1
  have carried: "\<exists>st'. frr_getopt example_build example_scan_once
                      (example_state\<lparr>errors := 1\<rparr>) = Exit 1 st' \<and> 0 < errors st'"
    by blast
  have fresh: "errors example_state = 0 \<and> \<not> vty_addr_set example_state \<and>
               \<not> vty_port_set example_state \<and> vty_sock_path example_daemon = None"
    by (simp add: example_state_fields example_daemon_fields)
  from t1 fresh c1 ports
  have once: "\<exists>lidx st'. frr_getopt example_build example_scan_once example_state =
                      Return (- 1, lidx, [], st') \<and> errors st' = 0"
    by simp
  from h1 h2 h3 h4 c2 c1 v r twice g m again e1 carried once show ?thesis
    by (simp add: list_all_iff)
qed

text \<open>
  The claim as stated has every command line with a repeated option end in the exit
  with a failure status. Here the address is given twice and \<^verbatim>\<open>-h\<close> follows: the error
  is counted and reported on standard error, and the process exits with status 0 and
  the help text on standard output. With an option \<open>frr_opt\<close> does not know in place of
  \<^verbatim>\<open>-h\<close>, the call returns its code to the caller and does not exit.
\<close>

theorem repeated_option_before_help_counterexample:
  "frr_getopt example_build
     (example_scan_twice @
      [\<lparr>ret_opt = opt_code CHR ''h'', ret_optarg = None, ret_longind = Some 0\<rparr>])
     example_state =
     Exit 0 (example_state
               \<lparr>vty_addr_set := True,
                di := Some (example_daemon\<lparr>vty_addr := Some ''127.0.0.1''\<rparr>),
                stderr := ''-A option specified more than once!\<newline>'',
                errors := 1,
                stdout := help_text example_build example_daemon (comb_helpstr example_state)\<rparr>)
   \<and> frr_getopt example_build
       (example_scan_twice @
        [\<lparr>ret_opt = opt_code CHR ''?'', ret_optarg = None, ret_longind = None\<rparr>])
       example_state =
       Return (opt_code CHR ''?'', Some 5, [],
               example_state
                 \<lparr>vty_addr_set := True,
                  di := Some (example_daemon\<lparr>vty_addr := Some ''127.0.0.1''\<rparr>),
                  stderr := ''-A option specified more than once!\<newline>'',
                  errors := 1\<rparr>)"
proof -
  let ?d1 = "example_daemon\<lparr>vty_addr := Some ''127.0.0.1''\<rparr>"
  let ?st1 = "example_state\<lparr>vty_addr_set := True, di := Some ?d1\<rparr>"
  let ?st2 = "example_state\<lparr>vty_addr_set := True, di := Some ?d1,
                 stderr := ''-A option specified more than once!\<newline>'', errors := 1\<rparr>"
  have d: "di example_state = Some example_daemon"
    by (simp add: example_state_fields)
  have d1: "di ?st1 = Some ?d1"
    by simp
  have d2: "di ?st2 = Some ?d1"
    by simp
  have disp: "\<forall>e\<in>set example_scan_twice. dispatched (flags example_daemon) e"
    by (simp add: example_scan_twice_def dispatched_def example_daemon_fields)
  have s1: "frr_opt example_build (opt_code CHR ''A'') (Some ''127.0.0.1'') example_state =
              Return (0, ?st1)"
    by (simp add: frr_opt_A [OF d] example_daemon_fields example_state_fields)
  have s2: "frr_opt example_build (opt_code CHR ''A'') (Some ''::1'') ?st1 = Return (0, ?st2)"
    by (simp add: frr_opt_A [OF d1] example_daemon_fields example_state_fields fprintf_def)
  have st: "fold (scanned example_build) example_scan_twice example_state = ?st2"
    by (simp add: example_scan_twice_def scanned_def s1 s2)
  have l: "lidx_after None example_scan_twice = Some 5"
    by (simp add: lidx_after_def example_scan_twice_def)
  have loop: "frr_getopt_loop example_build None (example_scan_twice @ rest) example_state =
                frr_getopt_loop example_build (Some 5) rest ?st2" for rest
    using frr_getopt_loop_append [OF d disp, of example_build None rest] by (simp add: st l)
  have same_help: "help_text example_build ?d1 h = help_text example_build example_daemon h" for h
    by (simp add: help_text_def usage_text_def split: option.split)
  have q: "frr_opt example_build (opt_code CHR ''?'') None ?st2 = Return (1, ?st2)"
    by (rule frr_opt_other) simp
  show ?thesis
    by (simp add: frr_getopt_def loop example_state_length frr_opt_h_exit [OF d2] same_help q
        example_state_fields)
qed

subsection \<open>Errors during the scan\<close>

text \<open>
  C4, as amended. A repeated \<^verbatim>\<open>-A\<close>, \<^verbatim>\<open>-P\<close> or \<^verbatim>\<open>--vty_socket\<close> and a malformed port value
  add one to the error count, and \<open>frr_opt\<close> returns 0: the process does not exit and
  the scan goes on. A code that \<open>frr_opt\<close> does not know, such as the \<^verbatim>\<open>?\<close> the scanner
  returns for an unrecognized option, is not counted: \<open>frr_opt\<close> returns 1 with the state
  unchanged, and \<open>frr_getopt\<close> returns the code to its caller with the remaining results
  not yet scanned. When \<open>frr_getopt\<close> exits with a status other than 0, the status
  is 1, the scanner has returned \<open>-1\<close> with no result left, and the error count is not 0.
\<close>

theorem recoverable_errors_counted_or_returned:
  assumes "di st = Some d"
  shows "(FRR_NO_TCPVTY \<notin> flags d \<and> vty_addr_set st \<longrightarrow>
            errors_added b (opt_code CHR ''A'') a st = Some 1)
       \<and> (FRR_NO_TCPVTY \<notin> flags d \<and> vty_port_set st \<longrightarrow>
            errors_added b (opt_code CHR ''P'') a st = Some 1)
       \<and> (vty_sock_path d \<noteq> None \<longrightarrow> errors_added b OPTION_VTYSOCK a st = Some 1)
       \<and> (FRR_NO_TCPVTY \<notin> flags d \<and> \<not> vty_port_set st \<and> \<not> valid_port_arg (Some s) \<longrightarrow>
            errors_added b (opt_code CHR ''P'') (Some s) st = Some 1)
       \<and> (opt \<notin> {opt_code CHR ''h'', opt_code CHR ''v'', opt_code CHR ''A'', opt_code CHR ''P'',
                  OPTION_VTYSOCK, opt_code CHR ''u'', opt_code CHR ''g''} \<longrightarrow>
            frr_opt b opt a st = Return (1, st))
       \<and> (ret_opt e \<notin> {opt_code CHR ''h'', opt_code CHR ''v'', opt_code CHR ''A'', opt_code CHR ''P'',
                  OPTION_VTYSOCK, opt_code CHR ''u'', opt_code CHR ''g'', - 1} \<and>
          length (comb_lo st) < 64 \<longrightarrow>
            frr_getopt b (e # post) st = Return (ret_opt e, ret_longind e, post, st))
       \<and> ((\<forall>x\<in>set evs. ret_opt x \<noteq> - 1) \<and> frr_getopt b evs st = Exit status st' \<and> status \<noteq> 0 \<longrightarrow>
            status = 1 \<and>
            (\<exists>lidx st''. frr_getopt_loop b None evs st = Return (- 1, lidx, [], st'') \<and>
                         errors st'' \<noteq> 0))"
proof (intro conjI impI)
  show "errors_added b (opt_code CHR ''A'') a st = Some 1"
    if "FRR_NO_TCPVTY \<notin> flags d \<and> vty_addr_set st"
    using that assms by (simp add: errors_added_def frr_opt_A fprintf_def)
  show "errors_added b (opt_code CHR ''P'') a st = Some 1"
    if "FRR_NO_TCPVTY \<notin> flags d \<and> vty_port_set st"
    using that assms by (simp add: errors_added_def frr_opt_P_dup fprintf_def)
  show "errors_added b OPTION_VTYSOCK a st = Some 1" if "vty_sock_path d \<noteq> None"
    using that assms by (simp add: errors_added_def frr_opt_VTYSOCK fprintf_def)
  show "errors_added b (opt_code CHR ''P'') (Some s) st = Some 1"
    if "FRR_NO_TCPVTY \<notin> flags d \<and> \<not> vty_port_set st \<and> \<not> valid_port_arg (Some s)"
    using that assms
    by (auto simp add: errors_added_def frr_opt_P fprintf_def valid_port_arg_def)
  show "frr_opt b opt a st = Return (1, st)"
    if "opt \<notin> {opt_code CHR ''h'', opt_code CHR ''v'', opt_code CHR ''A'', opt_code CHR ''P'',
                OPTION_VTYSOCK, opt_code CHR ''u'', opt_code CHR ''g''}"
    using that by (rule frr_opt_other)
  show "frr_getopt b (e # post) st = Return (ret_opt e, ret_longind e, post, st)"
    if h: "ret_opt e \<notin> {opt_code CHR ''h'', opt_code CHR ''v'', opt_code CHR ''A'', opt_code CHR ''P'',
                  OPTION_VTYSOCK, opt_code CHR ''u'', opt_code CHR ''g'', - 1} \<and>
          length (comb_lo st) < 64"
  proof -
    from h have "frr_opt b (ret_opt e) (ret_optarg e) st = Return (1, st)"
      by (intro frr_opt_other) simp
    with h show ?thesis
      by (simp add: frr_getopt_def split: option.split)
  qed
  show "status = 1"
    if "(\<forall>x\<in>set evs. ret_opt x \<noteq> - 1) \<and> frr_getopt b evs st = Exit status st' \<and> status \<noteq> 0"
    using that frr_getopt_failure_exit [of evs b st status st'] by blast
  show "\<exists>lidx st''. frr_getopt_loop b None evs st = Return (- 1, lidx, [], st'') \<and> errors st'' \<noteq> 0"
    if "(\<forall>x\<in>set evs. ret_opt x \<noteq> - 1) \<and> frr_getopt b evs st = Exit status st' \<and> status \<noteq> 0"
    using that frr_getopt_failure_exit [of evs b st status st'] by blast
qed

theorem recoverable_errors_counted_or_returned_witness:
  "di example_state = Some example_daemon
   \<and> FRR_NO_TCPVTY \<notin> flags example_daemon
   \<and> \<not> vty_port_set example_state
   \<and> \<not> valid_port_arg (Some ''123abc'')
   \<and> errors_added example_build (opt_code CHR ''P'') (Some ''123abc'') example_state = Some 1
   \<and> vty_addr_set (example_state\<lparr>vty_addr_set := True\<rparr>)
   \<and> errors_added example_build (opt_code CHR ''A'') (Some ''::1'')
         (example_state\<lparr>vty_addr_set := True\<rparr>) = Some 1
   \<and> vty_port_set (example_state\<lparr>vty_port_set := True\<rparr>)
   \<and> errors_added example_build (opt_code CHR ''P'') (Some ''2601'')
         (example_state\<lparr>vty_port_set := True\<rparr>) = Some 1
   \<and> vty_sock_path (example_daemon\<lparr>vty_sock_path := Some ''/tmp/ov''\<rparr>) \<noteq> None
   \<and> errors_added example_build OPTION_VTYSOCK (Some ''/tmp/other'')
         (example_state\<lparr>di := Some (example_daemon\<lparr>vty_sock_path := Some ''/tmp/ov''\<rparr>)\<rparr>) = Some 1
   \<and> frr_opt example_build (opt_code CHR ''?'') None example_state = Return (1, example_state)
   \<and> frr_getopt example_build
         (\<lparr>ret_opt = opt_code CHR ''?'', ret_optarg = None, ret_longind = None\<rparr> # example_scan_once)
         example_state =
       Return (opt_code CHR ''?'', None, example_scan_once, example_state)
   \<and> (\<exists>st'. frr_getopt example_build example_scan_twice example_state = Exit 1 st')
   \<and> (\<exists>lidx st''. frr_getopt_loop example_build None example_scan_twice example_state =
                       Return (- 1, lidx, [], st'') \<and> errors st'' \<noteq> 0)"
proof -
  let ?q = "\<lparr>ret_opt = opt_code CHR ''?'', ret_optarg = None, ret_longind = None\<rparr>"
  let ?dS = "example_daemon\<lparr>vty_sock_path := Some ''/tmp/ov''\<rparr>"
  have h1: "di example_state = Some example_daemon"
    by (simp add: example_state_fields)
  have hA: "di (example_state\<lparr>vty_addr_set := True\<rparr>) = Some example_daemon"
    by (simp add: example_state_fields)
  have hP: "di (example_state\<lparr>vty_port_set := True\<rparr>) = Some example_daemon"
    by (simp add: example_state_fields)
  have hS: "di (example_state\<lparr>di := Some ?dS\<rparr>) = Some ?dS"
    by simp
  have h2: "FRR_NO_TCPVTY \<notin> flags example_daemon"
    by (simp add: example_daemon_fields)
  have h3: "\<not> vty_port_set example_state"
    by (simp add: example_state_fields)
  have h4: "\<not> valid_port_arg (Some ''123abc'')"
    by (simp add: valid_port_arg_def strtoul_examples)
  have h5: "opt_code CHR ''?'' \<notin> {opt_code CHR ''h'', opt_code CHR ''v'', opt_code CHR ''A'',
              opt_code CHR ''P'', OPTION_VTYSOCK, opt_code CHR ''u'', opt_code CHR ''g''}"
    by simp
  have h5': "ret_opt ?q \<notin> {opt_code CHR ''h'', opt_code CHR ''v'', opt_code CHR ''A'',
              opt_code CHR ''P'', OPTION_VTYSOCK, opt_code CHR ''u'', opt_code CHR ''g'', - 1} \<and>
             length (comb_lo example_state) < 64"
    by (simp add: example_state_length)
  have h6: "\<forall>x\<in>set example_scan_twice. ret_opt x \<noteq> - 1"
    by (simp add: example_scan_twice_def)
  have h7: "vty_sock_path ?dS \<noteq> None"
    by simp
  have disp: "\<forall>e\<in>set example_scan_twice. dispatched (flags example_daemon) e"
    by (simp add: example_scan_twice_def dispatched_def example_daemon_fields)
  let ?st = "fold (scanned example_build) example_scan_twice example_state"
  have loop: "frr_getopt_loop example_build None example_scan_twice example_state =
                Return (- 1, lidx_after None example_scan_twice, [], ?st)"
    by (rule frr_getopt_loop_dispatched [OF h1 disp])
  have "errors example_state < errors ?st"
    by (rule fold_scanned_twice [OF h1 disp, of "opt_code CHR ''A''"])
       (simp_all add: example_scan_twice_def)
  then have pos: "errors ?st \<noteq> 0"
    by (simp add: example_state_fields)
  from static_part_eqD(1) [OF fold_scanned_static [OF h1 disp, of example_build] h1]
  obtain d' where d': "di ?st = Some d'" by blast
  have "\<exists>st'. frr_getopt example_build example_scan_twice example_state = Exit 1 st'"
    using pos by (simp add: frr_getopt_def loop example_state_length frr_help_exit_eq [OF d'])
  then obtain st' where ex: "frr_getopt example_build example_scan_twice example_state = Exit 1 st'"
    by blast
  note t = recoverable_errors_counted_or_returned
             [OF h1, of example_build None "''123abc''" "opt_code CHR ''?''" ?q
                 example_scan_once example_scan_twice 1 st']
  note tA = recoverable_errors_counted_or_returned
             [OF hA, of example_build "Some ''::1''" "''123abc''" "opt_code CHR ''?''" ?q
                 example_scan_once example_scan_twice 1 st']
  note tP = recoverable_errors_counted_or_returned
             [OF hP, of example_build "Some ''2601''" "''123abc''" "opt_code CHR ''?''" ?q
                 example_scan_once example_scan_twice 1 st']
  note tS = recoverable_errors_counted_or_returned
             [OF hS, of example_build "Some ''/tmp/other''" "''123abc''" "opt_code CHR ''?''" ?q
                 example_scan_once example_scan_twice 1 st']
  from t h2 h3 h4 have c1:
    "errors_added example_build (opt_code CHR ''P'') (Some ''123abc'') example_state = Some 1"
    by blast
  from tA h2 have c2: "errors_added example_build (opt_code CHR ''A'') (Some ''::1'')
         (example_state\<lparr>vty_addr_set := True\<rparr>) = Some 1"
    by simp
  from tP h2 have c3: "errors_added example_build (opt_code CHR ''P'') (Some ''2601'')
         (example_state\<lparr>vty_port_set := True\<rparr>) = Some 1"
    by simp
  from tS h7 have c4: "errors_added example_build OPTION_VTYSOCK (Some ''/tmp/other'')
         (example_state\<lparr>di := Some ?dS\<rparr>) = Some 1"
    by blast
  from t h5 have c5:
    "frr_opt example_build (opt_code CHR ''?'') None example_state = Return (1, example_state)"
    by blast
  from t h5' have c6: "frr_getopt example_build (?q # example_scan_once) example_state =
       Return (opt_code CHR ''?'', None, example_scan_once, example_state)"
    by simp
  from t h6 ex have c7: "\<exists>lidx st''. frr_getopt_loop example_build None example_scan_twice example_state =
                       Return (- 1, lidx, [], st'') \<and> errors st'' \<noteq> 0"
    by simp
  from h1 h2 h3 h4 h7 c1 c2 c3 c4 c5 c6 c7 ex show ?thesis by auto
qed

text \<open>
  The claim as stated counts an unrecognized option like the other errors. Here the
  scanner returns \<^verbatim>\<open>?\<close>: the call returns it to the caller and the count is still 0.
\<close>

theorem unrecognized_option_counterexample:
  "frr_getopt example_build
     [\<lparr>ret_opt = opt_code CHR ''?'', ret_optarg = None, ret_longind = None\<rparr>] example_state =
     Return (opt_code CHR ''?'', None, [], example_state)
   \<and> errors example_state = 0"
proof -
  have "frr_opt example_build (opt_code CHR ''?'') None example_state = Return (1, example_state)"
    by (rule frr_opt_other) simp
  then show ?thesis
    by (simp add: frr_getopt_def example_state_length example_state_fields)
qed

subsection \<open>What \<open>frr_preinit\<close> registers\<close>

text \<open>
  C5, as amended. \<open>frr_preinit\<close> does not reset the combined table: it sets the
  descriptor, with the program name the last path segment of \<^verbatim>\<open>argv[0]\<close>, sets the umask
  to 027, and appends to the table as it stands the mandatory fragment (help, version,
  socket path), then the user and group fragment exactly when \<^verbatim>\<open>FRR_NO_PRIVSEP\<close> is
  clear, then the address and port fragment exactly when \<^verbatim>\<open>FRR_NO_TCPVTY\<close> is clear.
  Where the arrays have room for all three, the call returns with exactly these
  appended; at process start the table is empty, so it then holds exactly them.
\<close>

theorem frr_preinit_appends_fragments:
  "frr_preinit daemon (argv0 # args) st =
     opt_extend_all
       (os_always # (if FRR_NO_PRIVSEP \<in> flags daemon then [] else [os_user]) @
                    (if FRR_NO_TCPVTY \<in> flags daemon then [] else [os_vty]))
       (st\<lparr>di := Some (daemon\<lparr>progname := last_segment argv0\<rparr>), umask := 23\<rparr>)
   \<and> (length (comb_optstr st) + 10 < 256 \<and> length (comb_helpstr st) + 297 < 4096 \<and>
       length (comb_lo st) + 7 \<le> 64 \<longrightarrow>
        frr_preinit daemon (argv0 # args) st =
          Return (st\<lparr>di := Some (daemon\<lparr>progname := last_segment argv0\<rparr>), umask := 23,
                     comb_optstr := comb_optstr st @ optstr os_always @
                       (if FRR_NO_PRIVSEP \<in> flags daemon then [] else optstr os_user) @
                       (if FRR_NO_TCPVTY \<in> flags daemon then [] else optstr os_vty),
                     comb_helpstr := comb_helpstr st @ helpstr os_always @
                       (if FRR_NO_PRIVSEP \<in> flags daemon then [] else helpstr os_user) @
                       (if FRR_NO_TCPVTY \<in> flags daemon then [] else helpstr os_vty),
                     comb_lo := comb_lo st @ longopts os_always @
                       (if FRR_NO_PRIVSEP \<in> flags daemon then [] else longopts os_user) @
                       (if FRR_NO_TCPVTY \<in> flags daemon then [] else longopts os_vty)\<rparr>))"
proof (intro conjI impI)
  show "frr_preinit daemon (argv0 # args) st =
     opt_extend_all
       (os_always # (if FRR_NO_PRIVSEP \<in> flags daemon then [] else [os_user]) @
                    (if FRR_NO_TCPVTY \<in> flags daemon then [] else [os_vty]))
       (st\<lparr>di := Some (daemon\<lparr>progname := last_segment argv0\<rparr>), umask := 23\<rparr>)"
    by (rule frr_preinit_eq)
  assume a: "length (comb_optstr st) + 10 < 256 \<and> length (comb_helpstr st) + 297 < 4096 \<and>
       length (comb_lo st) + 7 \<le> 64"
  let ?st = "st\<lparr>di := Some (daemon\<lparr>progname := last_segment argv0\<rparr>), umask := 23\<rparr>"
  from a have w: "within_capacity ?st"
    by (simp add: within_capacity_def)
  show "frr_preinit daemon (argv0 # args) st =
          Return (st\<lparr>di := Some (daemon\<lparr>progname := last_segment argv0\<rparr>), umask := 23,
                     comb_optstr := comb_optstr st @ optstr os_always @
                       (if FRR_NO_PRIVSEP \<in> flags daemon then [] else optstr os_user) @
                       (if FRR_NO_TCPVTY \<in> flags daemon then [] else optstr os_vty),
                     comb_helpstr := comb_helpstr st @ helpstr os_always @
                       (if FRR_NO_PRIVSEP \<in> flags daemon then [] else helpstr os_user) @
                       (if FRR_NO_TCPVTY \<in> flags daemon then [] else helpstr os_vty),
                     comb_lo := comb_lo st @ longopts os_always @
                       (if FRR_NO_PRIVSEP \<in> flags daemon then [] else longopts os_user) @
                       (if FRR_NO_TCPVTY \<in> flags daemon then [] else longopts os_vty)\<rparr>)"
    using a
    by (simp add: frr_preinit_eq opt_extend_all_eq [OF w] fragments_fit_def fragment_lengths)
qed

theorem frr_preinit_appends_fragments_witness:
  "length (comb_optstr (initial_state 18)) + 10 < 256
   \<and> length (comb_helpstr (initial_state 18)) + 297 < 4096
   \<and> length (comb_lo (initial_state 18)) + 7 \<le> 64
   \<and> frr_preinit example_daemon_no_tcpvty [''/usr/sbin/zebra''] (initial_state 18) =
       Return ((initial_state 18)
                 \<lparr>di := Some (example_daemon_no_tcpvty\<lparr>progname := ''zebra''\<rparr>), umask := 23,
                  comb_optstr := ''hvu:g:'',
                  comb_helpstr := helpstr os_always @ helpstr os_user,
                  comb_lo := lo_always @ lo_user\<rparr>)
   \<and> frr_preinit example_daemon [''/usr/sbin/zebra''] (initial_state 18) =
       Return ((initial_state 18)
                 \<lparr>di := Some (example_daemon\<lparr>progname := ''zebra''\<rparr>), umask := 23,
                  comb_optstr := ''hvu:g:A:P:'',
                  comb_helpstr := helpstr os_always @ helpstr os_user @ helpstr os_vty,
                  comb_lo := lo_always @ lo_user @ lo_vty\<rparr>)"
proof -
  have h: "length (comb_optstr (initial_state 18)) + 10 < 256"
    "length (comb_helpstr (initial_state 18)) + 297 < 4096"
    "length (comb_lo (initial_state 18)) + 7 \<le> 64"
    by (simp_all add: initial_state_def)
  have seg: "last_segment ''/usr/sbin/zebra'' = ''zebra''"
    by (simp add: last_segment_def)
  note t1 = frr_preinit_appends_fragments
              [of example_daemon_no_tcpvty "''/usr/sbin/zebra''" "[]" "initial_state 18",
               THEN conjunct2]
  note t2 = frr_preinit_appends_fragments
              [of example_daemon "''/usr/sbin/zebra''" "[]" "initial_state 18", THEN conjunct2]
  from t1 h have c1:
    "frr_preinit example_daemon_no_tcpvty [''/usr/sbin/zebra''] (initial_state 18) =
       Return ((initial_state 18)
                 \<lparr>di := Some (example_daemon_no_tcpvty\<lparr>progname := ''zebra''\<rparr>), umask := 23,
                  comb_optstr := ''hvu:g:'',
                  comb_helpstr := helpstr os_always @ helpstr os_user,
                  comb_lo := lo_always @ lo_user\<rparr>)"
    by (simp add: seg example_daemon_no_tcpvty_def example_daemon_fields initial_state_def)
       (simp add: os_always_def os_user_def)
  from t2 h have c2:
    "frr_preinit example_daemon [''/usr/sbin/zebra''] (initial_state 18) =
       Return ((initial_state 18)
                 \<lparr>di := Some (example_daemon\<lparr>progname := ''zebra''\<rparr>), umask := 23,
                  comb_optstr := ''hvu:g:A:P:'',
                  comb_helpstr := helpstr os_always @ helpstr os_user @ helpstr os_vty,
                  comb_lo := lo_always @ lo_user @ lo_vty\<rparr>)"
    by (simp add: seg example_daemon_fields initial_state_def)
       (simp add: os_always_def os_user_def os_vty_def)
  from h c1 c2 show ?thesis by blast
qed

text \<open>
  The claim as stated has \<open>frr_preinit\<close> reset the table. Called on the state that a
  first call left, it appends the fragments a second time.
\<close>

theorem frr_preinit_no_reset_counterexample:
  "seq (frr_preinit example_daemon [''/usr/sbin/zebra''] example_state)
       (\<lambda>st. Return (comb_optstr st)) = Return ''hvu:g:A:P:hvu:g:A:P:''
   \<and> seq (frr_preinit example_daemon [''/usr/sbin/zebra''] example_state)
         (\<lambda>st. Return (comb_optstr st)) \<noteq> Return ''hvu:g:A:P:''"
proof -
  have "seq (frr_preinit example_daemon [''/usr/sbin/zebra''] example_state)
          (\<lambda>st. Return (comb_optstr st)) = Return ''hvu:g:A:P:hvu:g:A:P:''"
    by (simp add: frr_preinit_def opt_extend_def example_state_table example_daemon_fields
        fragment_lengths Let_def)
       (simp add: os_always_def os_user_def os_vty_def lo_always_def lo_user_def lo_vty_def)
  then show ?thesis by simp
qed

subsection \<open>The control socket path\<close>

text \<open>
  C6, as amended. Without an override, \<open>frr_vty_serv\<close> passes on the base path as it
  is. With an override directory, it passes on the directory, a slash and the last
  segment of the base path, cut to \<^verbatim>\<open>MAXPATHLEN - 1\<close> bytes by \<^verbatim>\<open>snprintf\<close>; this is the
  whole joined path whenever that is shorter than \<^verbatim>\<open>MAXPATHLEN\<close>. The last segment is
  what follows the last slash, or the whole base path when it has no slash. In both
  cases the address and port of the descriptor are passed on unchanged.
\<close>

theorem frr_vty_serv_binds:
  assumes "di st = Some d"
  shows "(vty_sock_path d = None \<longrightarrow>
            frr_vty_serv b path st = Return (vty_addr d, vty_port d, path))
       \<and> (vty_sock_path d = Some dir \<longrightarrow>
            frr_vty_serv b path st =
              Return (vty_addr d, vty_port d,
                      take (MAXPATHLEN b - 1) (dir @ ''/'' @ last_segment path)))
       \<and> (vty_sock_path d = Some dir \<and>
          length dir + 1 + length (last_segment path) < MAXPATHLEN b \<longrightarrow>
            frr_vty_serv b path st =
              Return (vty_addr d, vty_port d, dir @ ''/'' @ last_segment path))
       \<and> (CHR ''/'' \<notin> set seg \<longrightarrow> last_segment (pre @ ''/'' @ seg) = seg)
       \<and> (CHR ''/'' \<notin> set path \<longrightarrow> last_segment path = path)"
proof (intro conjI impI)
  show "frr_vty_serv b path st = Return (vty_addr d, vty_port d, path)"
    if "vty_sock_path d = None"
    using that assms by (simp add: frr_vty_serv_def)
  show "frr_vty_serv b path st =
              Return (vty_addr d, vty_port d,
                      take (MAXPATHLEN b - 1) (dir @ ''/'' @ last_segment path))"
    if "vty_sock_path d = Some dir"
    using that assms by (simp add: frr_vty_serv_def snprintf_path_def basename_eq Let_def)
  show "frr_vty_serv b path st =
              Return (vty_addr d, vty_port d, dir @ ''/'' @ last_segment path)"
    if h: "vty_sock_path d = Some dir \<and>
          length dir + 1 + length (last_segment path) < MAXPATHLEN b"
  proof -
    from h have "take (MAXPATHLEN b - 1) (dir @ ''/'' @ last_segment path) =
                   dir @ ''/'' @ last_segment path"
      by (intro take_all) (simp, arith)
    with h assms show ?thesis
      by (simp add: frr_vty_serv_def snprintf_path_def basename_eq Let_def del: take_append)
  qed
  show "last_segment (pre @ ''/'' @ seg) = seg" if "CHR ''/'' \<notin> set seg"
    using that by (rule last_segment_append)
  show "last_segment path = path" if "CHR ''/'' \<notin> set path"
    using that by (rule last_segment_no_slash)
qed

theorem frr_vty_serv_binds_witness:
  "di example_state = Some example_daemon
   \<and> vty_sock_path example_daemon = None
   \<and> frr_vty_serv example_build ''/run/foo.vty'' example_state = Return (None, 0, ''/run/foo.vty'')
   \<and> di (example_state\<lparr>di := Some (example_daemon\<lparr>vty_sock_path := Some ''/tmp/ov''\<rparr>)\<rparr>) =
       Some (example_daemon\<lparr>vty_sock_path := Some ''/tmp/ov''\<rparr>)
   \<and> vty_sock_path (example_daemon\<lparr>vty_sock_path := Some ''/tmp/ov''\<rparr>) = Some ''/tmp/ov''
   \<and> length ''/tmp/ov'' + 1 + length (last_segment ''/run/foo.vty'') < MAXPATHLEN example_build
   \<and> CHR ''/'' \<notin> set ''foo.vty''
   \<and> last_segment ''/run/foo.vty'' = ''foo.vty''
   \<and> frr_vty_serv example_build ''/run/foo.vty''
         (example_state\<lparr>di := Some (example_daemon\<lparr>vty_sock_path := Some ''/tmp/ov''\<rparr>)\<rparr>) =
       Return (None, 0, ''/tmp/ov/foo.vty'')
   \<and> CHR ''/'' \<notin> set ''zebra.vty''
   \<and> last_segment ''zebra.vty'' = ''zebra.vty''
   \<and> frr_vty_serv example_build ''zebra.vty''
         (example_state\<lparr>di := Some (example_daemon\<lparr>vty_sock_path := Some ''/tmp/ov''\<rparr>)\<rparr>) =
       Return (None, 0, take 4095 ''/tmp/ov/zebra.vty'')"
proof -
  let ?d = "example_daemon\<lparr>vty_sock_path := Some ''/tmp/ov''\<rparr>"
  let ?st = "example_state\<lparr>di := Some ?d\<rparr>"
  have h1: "di example_state = Some example_daemon"
    by (simp add: example_state_fields)
  have h2: "vty_sock_path example_daemon = None"
    by (simp add: example_daemon_fields)
  have h3: "di ?st = Some ?d"
    by simp
  have h4: "CHR ''/'' \<notin> set ''foo.vty''"
    by simp
  have h6: "vty_sock_path ?d = Some ''/tmp/ov''"
    by simp
  have h7: "CHR ''/'' \<notin> set ''zebra.vty''"
    by simp
  note t1 = frr_vty_serv_binds
              [OF h1, of example_build "''/run/foo.vty''" undefined "''foo.vty''" "''/run''"]
  note t2 = frr_vty_serv_binds
              [OF h3, of example_build "''/run/foo.vty''" "''/tmp/ov''" "''foo.vty''" "''/run''"]
  note t3 = frr_vty_serv_binds
              [OF h3, of example_build "''zebra.vty''" "''/tmp/ov''" "''foo.vty''" "''/run''"]
  from t1 h2 have c1:
    "frr_vty_serv example_build ''/run/foo.vty'' example_state = Return (None, 0, ''/run/foo.vty'')"
    by (simp add: example_daemon_fields)
  from t2 h4 have seg: "last_segment ''/run/foo.vty'' = ''foo.vty''"
    by simp
  then have h5: "length ''/tmp/ov'' + 1 + length (last_segment ''/run/foo.vty'') < MAXPATHLEN example_build"
    by (simp add: example_build_def)
  from t2 [THEN conjunct2, THEN conjunct2, THEN conjunct1] h5
  have c2: "frr_vty_serv example_build ''/run/foo.vty'' ?st = Return (None, 0, ''/tmp/ov/foo.vty'')"
    by (simp add: seg example_daemon_fields)
  from t3 h7 have seg': "last_segment ''zebra.vty'' = ''zebra.vty''"
    by blast
  from t3 [THEN conjunct2, THEN conjunct1] h6
  have c3: "frr_vty_serv example_build ''zebra.vty'' ?st = Return (None, 0, take 4095 ''/tmp/ov/zebra.vty'')"
    by (simp add: seg' example_daemon_fields example_build_def)
  from h1 h2 h3 h4 h5 h6 h7 seg seg' c1 c2 c3 show ?thesis by blast
qed

text \<open>
  The claim as stated has the joined path bound exactly. With an override of 4096
  bytes, given by \<^verbatim>\<open>--vty_socket\<close>, and \<^verbatim>\<open>MAXPATHLEN\<close> 4096, the path passed on is the first
  4095 bytes of the directory.
\<close>

theorem frr_vty_serv_truncates_counterexample:
  "seq (frr_opt example_build OPTION_VTYSOCK (Some (replicate 4096 (CHR ''a''))) example_state)
       (\<lambda>(r, st). frr_vty_serv example_build ''/run/foo.vty'' st) =
     Return (None, 0, replicate 4095 (CHR ''a''))
   \<and> replicate 4095 (CHR ''a'') \<noteq> replicate 4096 (CHR ''a'') @ ''/'' @ ''foo.vty''"
proof
  have d: "di example_state = Some example_daemon"
    by (simp add: example_state_fields)
  show "seq (frr_opt example_build OPTION_VTYSOCK (Some (replicate 4096 (CHR ''a''))) example_state)
       (\<lambda>(r, st). frr_vty_serv example_build ''/run/foo.vty'' st) =
     Return (None, 0, replicate 4095 (CHR ''a''))"
    by (simp add: frr_opt_VTYSOCK [OF d] example_daemon_fields frr_vty_serv_def
        snprintf_path_def example_build_def Let_def)
  have "length (replicate 4095 (CHR ''a'')) \<noteq> length (replicate 4096 (CHR ''a'') @ ''/'' @ ''foo.vty'')"
    by simp
  then show "replicate 4095 (CHR ''a'') \<noteq> replicate 4096 (CHR ''a'') @ ''/'' @ ''foo.vty''"
    by metis
qed

subsection \<open>Help and version\<close>

text \<open>
  C7. In every state with a descriptor, whatever the error count, \<^verbatim>\<open>-h\<close> exits with
  status 0 after appending the help text to standard output, and \<^verbatim>\<open>-v\<close> exits with
  status 0 after appending the version text to standard output. So does a call of
  \<open>frr_getopt\<close> in which the scanner reaches \<^verbatim>\<open>-h\<close> or \<^verbatim>\<open>-v\<close> after any results that
  \<open>frr_opt\<close> takes for itself, repeated and malformed ones included: the exit status
  is 0, the errors counted so far stay in the count, their messages stay on standard
  error, and standard output gets the help or version text only.
\<close>

theorem help_and_version_exit_zero:
  assumes "di st = Some d"
  shows "frr_opt b (opt_code CHR ''h'') a st =
           Exit 0 (st\<lparr>stdout := stdout st @ help_text b d (comb_helpstr st)\<rparr>)
       \<and> frr_opt b (opt_code CHR ''v'') a st =
           Exit 0 (st\<lparr>stdout := stdout st @ version_text b (progname d)\<rparr>)
       \<and> ((\<forall>x\<in>set pre. dispatched (flags d) x) \<and> length (comb_lo st) < 64 \<and>
          ret_opt e \<in> {opt_code CHR ''h'', opt_code CHR ''v''} \<longrightarrow>
            (\<exists>st'. frr_getopt b (pre @ e # post) st = Exit 0 st' \<and>
                   errors st' = errors (fold (scanned b) pre st) \<and>
                   stderr st' = stderr (fold (scanned b) pre st) \<and>
                   stdout st' = stdout st @
                     (if ret_opt e = opt_code CHR ''h'' then help_text b d (comb_helpstr st)
                      else version_text b (progname d))))"
proof (intro conjI impI)
  show "frr_opt b (opt_code CHR ''h'') a st =
           Exit 0 (st\<lparr>stdout := stdout st @ help_text b d (comb_helpstr st)\<rparr>)"
    by (rule frr_opt_h_exit [OF assms])
  show "frr_opt b (opt_code CHR ''v'') a st =
           Exit 0 (st\<lparr>stdout := stdout st @ version_text b (progname d)\<rparr>)"
    by (rule frr_opt_v_exit [OF assms])
  assume a: "(\<forall>x\<in>set pre. dispatched (flags d) x) \<and> length (comb_lo st) < 64 \<and>
          ret_opt e \<in> {opt_code CHR ''h'', opt_code CHR ''v''}"
  let ?st = "fold (scanned b) pre st"
  from a have pre: "\<forall>x\<in>set pre. dispatched (flags d) x" by blast
  note sp = fold_scanned_static [OF assms pre, of b]
  from static_part_eqD(1) [OF sp assms, of b "comb_helpstr st"]
  obtain d' where d': "di ?st = Some d'" "progname d' = progname d"
      "help_text b d' (comb_helpstr st) = help_text b d (comb_helpstr st)"
    by blast
  have same: "comb_helpstr ?st = comb_helpstr st" "stdout ?st = stdout st"
    by (rule static_part_eqD [OF sp assms])+
  have loop: "frr_getopt_loop b None (pre @ e # post) st =
                frr_getopt_loop b (lidx_after None pre) (e # post) ?st"
    by (rule frr_getopt_loop_append [OF assms pre])
  from a consider "ret_opt e = opt_code CHR ''h''" | "ret_opt e = opt_code CHR ''v''"
    by blast
  then show "\<exists>st'. frr_getopt b (pre @ e # post) st = Exit 0 st' \<and>
                   errors st' = errors ?st \<and> stderr st' = stderr ?st \<and>
                   stdout st' = stdout st @
                     (if ret_opt e = opt_code CHR ''h'' then help_text b d (comb_helpstr st)
                      else version_text b (progname d))"
  proof cases
    case 1
    with a show ?thesis
      by (simp add: frr_getopt_def loop frr_opt_h_exit [OF d'(1)] d' same)
  next
    case 2
    with a show ?thesis
      by (simp add: frr_getopt_def loop frr_opt_v_exit [OF d'(1)] d' same)
  qed
qed

theorem help_and_version_exit_zero_witness:
  "di example_state = Some example_daemon
   \<and> list_all (dispatched (flags example_daemon)) example_scan_invalid
   \<and> length (comb_lo example_state) < 64
   \<and> (\<exists>st'. frr_getopt example_build
               (example_scan_invalid @
                [\<lparr>ret_opt = opt_code CHR ''h'', ret_optarg = None, ret_longind = Some 0\<rparr>])
               example_state = Exit 0 st' \<and>
             0 < errors st' \<and>
             stdout st' = help_text example_build example_daemon (comb_helpstr example_state))
   \<and> frr_opt example_build (opt_code CHR ''v'') None example_state =
       Exit 0 (example_state\<lparr>stdout := ''zebra version\<newline>''\<rparr>)"
proof -
  let ?h = "\<lparr>ret_opt = opt_code CHR ''h'', ret_optarg = None, ret_longind = Some 0\<rparr>"
  have h1: "di example_state = Some example_daemon"
    by (simp add: example_state_fields)
  have h2: "\<forall>e\<in>set example_scan_invalid. dispatched (flags example_daemon) e"
    by (simp add: example_scan_invalid_def dispatched_def example_daemon_fields)
  have h3: "length (comb_lo example_state) < 64"
    by (simp add: example_state_length)
  have h4: "ret_opt ?h \<in> {opt_code CHR ''h'', opt_code CHR ''v''}"
    by simp
  have "errors example_state < errors (fold (scanned example_build) example_scan_invalid example_state)"
    by (rule fold_scanned_twice [OF h1 h2, of "opt_code CHR ''A''"])
       (simp_all add: example_scan_invalid_def)
  then have pos: "0 < errors (fold (scanned example_build) example_scan_invalid example_state)"
    by (simp add: example_state_fields)
  note t = help_and_version_exit_zero
             [OF h1, of example_build None example_scan_invalid ?h "[]"]
  from t h2 h3 h4 pos
  have c1: "\<exists>st'. frr_getopt example_build (example_scan_invalid @ [?h]) example_state = Exit 0 st' \<and>
             0 < errors st' \<and>
             stdout st' = help_text example_build example_daemon (comb_helpstr example_state)"
    by (auto simp add: example_state_fields)
  from t have c2: "frr_opt example_build (opt_code CHR ''v'') None example_state =
       Exit 0 (example_state\<lparr>stdout := ''zebra version\<newline>''\<rparr>)"
    by (simp add: example_state_fields example_daemon_fields example_build_def)
  from h1 h2 h3 c1 c2 show ?thesis
    by (simp add: list_all_iff)
qed

subsection \<open>The remote listener disabled\<close>

text \<open>
  C8. With \<^verbatim>\<open>FRR_NO_TCPVTY\<close> set in the descriptor, \<open>frr_preinit\<close> appends the mandatory
  fragment and, when enabled, the user and group fragment, and nothing else: started
  from the empty table of process start, the short-option string has neither \<^verbatim>\<open>A\<close> nor
  \<^verbatim>\<open>P\<close> and no long option has their codes or the names \<^verbatim>\<open>vty_addr\<close> and \<^verbatim>\<open>vty_port\<close>, so
  the scanner does not know them. Whatever argument comes with them, \<open>frr_opt\<close> answers
  the codes of \<^verbatim>\<open>A\<close> and \<^verbatim>\<open>P\<close> with 1, the unhandled signal, and leaves the state as it is.
\<close>

theorem no_tcpvty_leaves_address_and_port_unhandled:
  assumes "FRR_NO_TCPVTY \<in> flags d"
  shows "(frr_preinit d (argv0 # args) st = Return st' \<longrightarrow>
            comb_optstr st' = comb_optstr st @ optstr os_always @
              (if FRR_NO_PRIVSEP \<in> flags d then [] else optstr os_user) \<and>
            comb_lo st' = comb_lo st @ longopts os_always @
              (if FRR_NO_PRIVSEP \<in> flags d then [] else longopts os_user))
       \<and> (\<exists>st'. frr_preinit d (argv0 # args) (initial_state m) = Return st' \<and>
                 CHR ''A'' \<notin> set (comb_optstr st') \<and> CHR ''P'' \<notin> set (comb_optstr st') \<and>
                 opt_code CHR ''A'' \<notin> val ` set (comb_lo st') \<and>
                 opt_code CHR ''P'' \<notin> val ` set (comb_lo st') \<and>
                 ''vty_addr'' \<notin> name ` set (comb_lo st') \<and>
                 ''vty_port'' \<notin> name ` set (comb_lo st'))
       \<and> (di s = Some d \<longrightarrow>
            frr_opt b (opt_code CHR ''A'') a s = Return (1, s) \<and>
            frr_opt b (opt_code CHR ''P'') a s = Return (1, s))"
proof (intro conjI impI)
  let ?fs = "os_always # (if FRR_NO_PRIVSEP \<in> flags d then [] else [os_user])"
  have eq: "frr_preinit d (argv0 # args) x =
              opt_extend_all ?fs (x\<lparr>di := Some (d\<lparr>progname := last_segment argv0\<rparr>), umask := 23\<rparr>)"
    for x
    using assms by (simp add: frr_preinit_eq)
  {
    assume r: "frr_preinit d (argv0 # args) st = Return st'"
    then have "st' = st\<lparr>di := Some (d\<lparr>progname := last_segment argv0\<rparr>), umask := 23,
                        comb_optstr := comb_optstr st @ optstr os_always @
                          (if FRR_NO_PRIVSEP \<in> flags d then [] else optstr os_user),
                        comb_helpstr := comb_helpstr st @ helpstr os_always @
                          (if FRR_NO_PRIVSEP \<in> flags d then [] else helpstr os_user),
                        comb_lo := comb_lo st @ longopts os_always @
                          (if FRR_NO_PRIVSEP \<in> flags d then [] else longopts os_user)\<rparr>"
      unfolding eq
      by (auto simp: opt_extend_def split: if_splits)
    then show "comb_optstr st' = comb_optstr st @ optstr os_always @
              (if FRR_NO_PRIVSEP \<in> flags d then [] else optstr os_user)"
      and "comb_lo st' = comb_lo st @ longopts os_always @
              (if FRR_NO_PRIVSEP \<in> flags d then [] else longopts os_user)"
      by simp_all
  }
  show "\<exists>st'. frr_preinit d (argv0 # args) (initial_state m) = Return st' \<and>
                 CHR ''A'' \<notin> set (comb_optstr st') \<and> CHR ''P'' \<notin> set (comb_optstr st') \<and>
                 opt_code CHR ''A'' \<notin> val ` set (comb_lo st') \<and>
                 opt_code CHR ''P'' \<notin> val ` set (comb_lo st') \<and>
                 ''vty_addr'' \<notin> name ` set (comb_lo st') \<and>
                 ''vty_port'' \<notin> name ` set (comb_lo st')"
    unfolding eq
    by (simp add: opt_extend_def initial_state_def os_always_def os_user_def
        lo_always_def lo_user_def OPTION_VTYSOCK_def opt_code_values)
  show "frr_opt b (opt_code CHR ''A'') a s = Return (1, s)" if "di s = Some d"
    using that assms by (simp add: frr_opt_A)
  show "frr_opt b (opt_code CHR ''P'') a s = Return (1, s)" if "di s = Some d"
    using that assms by (simp add: frr_opt_def opt_code_values)
qed

theorem no_tcpvty_leaves_address_and_port_unhandled_witness:
  "FRR_NO_TCPVTY \<in> flags example_daemon_no_tcpvty
   \<and> frr_preinit example_daemon_no_tcpvty [''/usr/sbin/zebra''] (initial_state 18) =
       Return ((initial_state 18)
                 \<lparr>di := Some example_daemon_no_tcpvty, umask := 23,
                  comb_optstr := ''hvu:g:'',
                  comb_helpstr := helpstr os_always @ helpstr os_user,
                  comb_lo := lo_always @ lo_user\<rparr>)
   \<and> (\<exists>st'. frr_preinit example_daemon_no_tcpvty [''/usr/sbin/zebra''] (initial_state 18) =
               Return st' \<and>
             CHR ''A'' \<notin> set (comb_optstr st') \<and> CHR ''P'' \<notin> set (comb_optstr st') \<and>
             opt_code CHR ''A'' \<notin> val ` set (comb_lo st') \<and>
             opt_code CHR ''P'' \<notin> val ` set (comb_lo st') \<and>
             ''vty_addr'' \<notin> name ` set (comb_lo st') \<and>
             ''vty_port'' \<notin> name ` set (comb_lo st'))
   \<and> di (example_state\<lparr>di := Some example_daemon_no_tcpvty\<rparr>) = Some example_daemon_no_tcpvty
   \<and> frr_opt example_build (opt_code CHR ''A'') (Some ''127.0.0.1'')
         (example_state\<lparr>di := Some example_daemon_no_tcpvty\<rparr>) =
       Return (1, example_state\<lparr>di := Some example_daemon_no_tcpvty\<rparr>)
   \<and> frr_opt example_build (opt_code CHR ''P'') (Some ''2601'')
         (example_state\<lparr>di := Some example_daemon_no_tcpvty\<rparr>) =
       Return (1, example_state\<lparr>di := Some example_daemon_no_tcpvty\<rparr>)"
proof -
  let ?st' = "(initial_state 18)
                 \<lparr>di := Some example_daemon_no_tcpvty, umask := 23,
                  comb_optstr := ''hvu:g:'',
                  comb_helpstr := helpstr os_always @ helpstr os_user,
                  comb_lo := lo_always @ lo_user\<rparr>"
  have h1: "FRR_NO_TCPVTY \<in> flags example_daemon_no_tcpvty"
    by (simp add: example_daemon_no_tcpvty_def)
  have h2: "di (example_state\<lparr>di := Some example_daemon_no_tcpvty\<rparr>) =
              Some example_daemon_no_tcpvty"
    by simp
  have h3: "frr_preinit example_daemon_no_tcpvty [''/usr/sbin/zebra''] (initial_state 18) =
              Return ?st'"
    by (simp add: frr_preinit_def strrchr_def example_daemon_no_tcpvty_def example_daemon_def
        initial_state_def opt_extend_def os_always_def os_user_def lo_always_def lo_user_def)
  note t1 = no_tcpvty_leaves_address_and_port_unhandled
              [OF h1, of "''/usr/sbin/zebra''" "[]" "initial_state 18" ?st' 18
                 "example_state\<lparr>di := Some example_daemon_no_tcpvty\<rparr>" example_build
                 "Some ''127.0.0.1''"]
  note t2 = no_tcpvty_leaves_address_and_port_unhandled
              [OF h1, of "''/usr/sbin/zebra''" "[]" "initial_state 18" ?st' 18
                 "example_state\<lparr>di := Some example_daemon_no_tcpvty\<rparr>" example_build
                 "Some ''2601''"]
  from h1 h2 h3 t1 t2 show ?thesis by blast
qed

subsection \<open>User and group\<close>

text \<open>
  C9. With privilege separation enabled, \<^verbatim>\<open>-u\<close> and \<^verbatim>\<open>-g\<close> store their argument as it
  is in the privilege configuration of the descriptor and change nothing else in the
  state: the error count and both streams stay as they were. A second occurrence
  replaces the value of the first and is no error either.
\<close>

theorem frr_opt_user_group_overwrite:
  assumes "di st = Some d" and "FRR_NO_PRIVSEP \<notin> flags d"
  shows "frr_opt b (opt_code CHR ''u'') a st =
           Return (0, st\<lparr>di := Some (d\<lparr>privs := (privs d)\<lparr>user := a\<rparr>\<rparr>)\<rparr>)
       \<and> frr_opt b (opt_code CHR ''g'') a st =
           Return (0, st\<lparr>di := Some (d\<lparr>privs := (privs d)\<lparr>group := a\<rparr>\<rparr>)\<rparr>)
       \<and> seq (frr_opt b (opt_code CHR ''u'') a st)
             (\<lambda>(r, st'). frr_opt b (opt_code CHR ''u'') a' st') =
           Return (0, st\<lparr>di := Some (d\<lparr>privs := (privs d)\<lparr>user := a'\<rparr>\<rparr>)\<rparr>)
       \<and> seq (frr_opt b (opt_code CHR ''g'') a st)
             (\<lambda>(r, st'). frr_opt b (opt_code CHR ''g'') a' st') =
           Return (0, st\<lparr>di := Some (d\<lparr>privs := (privs d)\<lparr>group := a'\<rparr>\<rparr>)\<rparr>)
       \<and> errors_added b (opt_code CHR ''u'') a st = Some 0
       \<and> errors_added b (opt_code CHR ''g'') a st = Some 0"
  using assms by (simp add: frr_opt_u frr_opt_g errors_added_def)

theorem frr_opt_user_group_overwrite_witness:
  "di example_state = Some example_daemon
   \<and> FRR_NO_PRIVSEP \<notin> flags example_daemon
   \<and> seq (frr_opt example_build (opt_code CHR ''u'') (Some ''frr'') example_state)
         (\<lambda>(r, st'). frr_opt example_build (opt_code CHR ''u'') (Some ''quagga'') st') =
       Return (0, example_state
                    \<lparr>di := Some (example_daemon
                                   \<lparr>privs := (privs example_daemon)\<lparr>user := Some ''quagga''\<rparr>\<rparr>)\<rparr>)
   \<and> errors_added example_build (opt_code CHR ''g'') (Some ''frr'') example_state = Some 0"
proof -
  have h1: "di example_state = Some example_daemon"
    by (simp add: example_state_fields)
  have h2: "FRR_NO_PRIVSEP \<notin> flags example_daemon"
    by (simp add: example_daemon_fields)
  note t = frr_opt_user_group_overwrite
             [OF h1 h2, of example_build "Some ''frr''" "Some ''quagga''"]
  from h1 h2 t show ?thesis by blast
qed

subsection \<open>The port after a malformed value\<close>

text \<open>
  C10. When the value of the first \<^verbatim>\<open>-P\<close> is malformed, the handler still stores what
  \<open>strtoul\<close> returned for it in \<open>vty_port\<close> and sets \<open>vty_port_set\<close>; it writes the
  message and adds one to the error count. A second \<^verbatim>\<open>-P\<close>, whatever its value, is then
  reported as given more than once: it adds another error and leaves \<open>vty_port\<close> as
  the first one set it.
\<close>

theorem invalid_port_is_stored_and_marked_set:
  assumes "di st = Some d" and "FRR_NO_TCPVTY \<notin> flags d" and "\<not> vty_port_set st"
    and "\<not> valid_port_arg (Some s)"
  shows "frr_opt b (opt_code CHR ''P'') (Some s) st =
           Return (0, st\<lparr>vty_port_set := True,
                         di := Some (d\<lparr>vty_port := fst (strtoul s 0)\<rparr>),
                         stderr := stderr st @ ''invalid port number '' @ [CHR 0x22] @ s @
                                   [CHR 0x22] @ '' for -P option\<newline>'',
                         errors := errors st + 1\<rparr>)
       \<and> seq (frr_opt b (opt_code CHR ''P'') (Some s) st)
             (\<lambda>(r, st'). frr_opt b (opt_code CHR ''P'') a' st') =
           Return (0, st\<lparr>vty_port_set := True,
                         di := Some (d\<lparr>vty_port := fst (strtoul s 0)\<rparr>),
                         stderr := stderr st @ ''invalid port number '' @ [CHR 0x22] @ s @
                                   [CHR 0x22] @ '' for -P option\<newline>'' @
                                   ''-P option specified more than once!\<newline>'',
                         errors := errors st + 2\<rparr>)"
proof
  note first = frr_opt_P_invalid [OF assms, of b]
  show "frr_opt b (opt_code CHR ''P'') (Some s) st =
           Return (0, st\<lparr>vty_port_set := True,
                         di := Some (d\<lparr>vty_port := fst (strtoul s 0)\<rparr>),
                         stderr := stderr st @ ''invalid port number '' @ [CHR 0x22] @ s @
                                   [CHR 0x22] @ '' for -P option\<newline>'',
                         errors := errors st + 1\<rparr>)"
    by (rule first)
  show "seq (frr_opt b (opt_code CHR ''P'') (Some s) st)
             (\<lambda>(r, st'). frr_opt b (opt_code CHR ''P'') a' st') =
           Return (0, st\<lparr>vty_port_set := True,
                         di := Some (d\<lparr>vty_port := fst (strtoul s 0)\<rparr>),
                         stderr := stderr st @ ''invalid port number '' @ [CHR 0x22] @ s @
                                   [CHR 0x22] @ '' for -P option\<newline>'' @
                                   ''-P option specified more than once!\<newline>'',
                         errors := errors st + 2\<rparr>)"
    using assms(2)
    by (simp add: first frr_opt_P_dup [where d = "d\<lparr>vty_port := fst (strtoul s 0)\<rparr>"] fprintf_def)
qed

theorem invalid_port_is_stored_and_marked_set_witness:
  "di example_state = Some example_daemon
   \<and> FRR_NO_TCPVTY \<notin> flags example_daemon
   \<and> \<not> vty_port_set example_state
   \<and> \<not> valid_port_arg (Some ''123abc'')
   \<and> seq (frr_opt example_build (opt_code CHR ''P'') (Some ''123abc'') example_state)
         (\<lambda>(r, st'). frr_opt example_build (opt_code CHR ''P'') (Some ''2601'') st') =
       Return (0, example_state
                    \<lparr>vty_port_set := True,
                     di := Some (example_daemon\<lparr>vty_port := 123\<rparr>),
                     stderr := ''invalid port number '' @ [CHR 0x22] @ ''123abc'' @ [CHR 0x22] @
                               '' for -P option\<newline>'' @
                               ''-P option specified more than once!\<newline>'',
                     errors := 2\<rparr>)"
proof -
  have h1: "di example_state = Some example_daemon"
    by (simp add: example_state_fields)
  have h2: "FRR_NO_TCPVTY \<notin> flags example_daemon"
    by (simp add: example_daemon_fields)
  have h3: "\<not> vty_port_set example_state"
    by (simp add: example_state_fields)
  have h4: "\<not> valid_port_arg (Some ''123abc'')"
    by (simp add: valid_port_arg_def strtoul_examples)
  note t = invalid_port_is_stored_and_marked_set
             [OF h1 h2 h3 h4, of example_build "Some ''2601''"]
  from t [THEN conjunct2]
  have c: "seq (frr_opt example_build (opt_code CHR ''P'') (Some ''123abc'') example_state)
         (\<lambda>(r, st'). frr_opt example_build (opt_code CHR ''P'') (Some ''2601'') st') =
       Return (0, example_state
                    \<lparr>vty_port_set := True,
                     di := Some (example_daemon\<lparr>vty_port := 123\<rparr>),
                     stderr := ''invalid port number '' @ [CHR 0x22] @ ''123abc'' @ [CHR 0x22] @
                               '' for -P option\<newline>'' @
                               ''-P option specified more than once!\<newline>'',
                     errors := 2\<rparr>)"
    by (simp add: strtoul_examples example_state_fields)
  from h1 h2 h3 h4 c show ?thesis by blast
qed

end
